theory Spec2Isabelle
  imports Main "HOL-Library.Char_ord" "HOL-Library.Sublist" "HOL-Library.AList"
begin

section \<open>aurelia-fetch-client: URL resolution\<close>

text \<open>
  The client resolves a request target with
  \<^verbatim>\<open>const absoluteUrlRegexp = /^([a-z][a-z0-9+\-.]*:)?\/\//i;\<close> and
  \<^verbatim>\<open>function getRequestUrl(baseUrl, url) {
    if (absoluteUrlRegexp.test(url)) { return url; }
    return (baseUrl || '') + url; }\<close>
  JavaScript strings are modelled as \<^typ>\<open>string\<close>. A value that may be
  \<^verbatim>\<open>undefined\<close> or \<^verbatim>\<open>null\<close> is an \<^typ>\<open>'a option\<close>.
\<close>

subsection \<open>The regular expression\<close>

text \<open>The class \<^verbatim>\<open>[a-z]\<close> under the flag \<^verbatim>\<open>i\<close>.\<close>

definition isLetter :: "char \<Rightarrow> bool" where
  "isLetter c \<longleftrightarrow> (CHR ''a'' \<le> c \<and> c \<le> CHR ''z'') \<or> (CHR ''A'' \<le> c \<and> c \<le> CHR ''Z'')"

text \<open>The class \<^verbatim>\<open>[a-z0-9+\-.]\<close> under the flag \<^verbatim>\<open>i\<close>.\<close>

definition isSchemeChar :: "char \<Rightarrow> bool" where
  "isSchemeChar c \<longleftrightarrow>
     isLetter c \<or> (CHR ''0'' \<le> c \<and> c \<le> CHR ''9'') \<or> c = CHR ''+'' \<or> c = CHR ''-'' \<or> c = CHR ''.''"

text \<open>A literal at the current position.\<close>

definition startsWith :: "string \<Rightarrow> string \<Rightarrow> bool" where
  "startsWith lit s \<longleftrightarrow> take (length lit) s = lit"

text \<open>
  A greedy starred class followed by the rest of the pattern \<open>k\<close>: take one more
  character of the class when that leads to a match, otherwise give it back.
\<close>

fun star_then :: "(char \<Rightarrow> bool) \<Rightarrow> (string \<Rightarrow> bool) \<Rightarrow> string \<Rightarrow> bool" where
  "star_then p k [] = k []"
| "star_then p k (c # cs) = ((p c \<and> star_then p k cs) \<or> k (c # cs))"

text \<open>The colon that closes the group, then the two slashes.\<close>

definition colon_slashes :: "string \<Rightarrow> bool" where
  "colon_slashes s = (case s of [] \<Rightarrow> False | c # r \<Rightarrow> c = CHR '':'' \<and> startsWith ''//'' r)"

text \<open>
  \<^verbatim>\<open>absoluteUrlRegexp.test(url)\<close>: anchored at the start only; the optional group
  is tried first and skipped when the match fails with it.
\<close>

definition absoluteUrlRegexp_test :: "string \<Rightarrow> bool" where
  "absoluteUrlRegexp_test url \<longleftrightarrow>
     (case url of [] \<Rightarrow> False | c # cs \<Rightarrow> isLetter c \<and> star_then isSchemeChar colon_slashes cs)
     \<or> startsWith ''//'' url"

subsection \<open>getRequestUrl\<close>

text \<open>\<^verbatim>\<open>baseUrl || ''\<close>: an unset base URL counts as the empty string.\<close>

definition or_empty :: "string option \<Rightarrow> string" where
  "or_empty b = (case b of None \<Rightarrow> '''' | Some s \<Rightarrow> (if s = '''' then '''' else s))"

definition getRequestUrl :: "string option \<Rightarrow> string \<Rightarrow> string" where
  "getRequestUrl baseUrl url =
     (if absoluteUrlRegexp_test url then url else or_empty baseUrl @ url)"

text \<open>
  The pattern in the words of the specification: a target is absolute when it has an
  explicit scheme (a letter, then letters, digits, \<open>+\<close>, \<open>-\<close> or \<open>.\<close>) followed by a
  colon and \<open>//\<close>, or when it is protocol-relative, starting with \<open>//\<close>.
\<close>

definition has_scheme_prefix :: "string \<Rightarrow> bool" where
  "has_scheme_prefix url \<longleftrightarrow>
     (\<exists>c scheme rest. url = (c # scheme) @ '':'' @ ''//'' @ rest \<and> isLetter c
        \<and> list_all isSchemeChar scheme)"

definition protocol_relative :: "string \<Rightarrow> bool" where
  "protocol_relative url \<longleftrightarrow> (\<exists>rest. url = ''//'' @ rest)"

definition matches_absolute_pattern :: "string \<Rightarrow> bool" where
  "matches_absolute_pattern url \<longleftrightarrow> has_scheme_prefix url \<or> protocol_relative url"

section \<open>Values, headers, requests and responses\<close>

text \<open>
  The header collection of the platform (\<^verbatim>\<open>Headers\<close>) is modelled as the list of
  its entries, each name stored in lower case since names are compared without regard
  to case. The platform's validation and normalisation of names and values, and its
  filtering of forbidden names, are not part of this model.
\<close>

type_synonym Headers = "(string \<times> string) list"

definition toLower :: "char \<Rightarrow> char" where
  "toLower c =
     (case map_of (zip ''ABCDEFGHIJKLMNOPQRSTUVWXYZ'' ''abcdefghijklmnopqrstuvwxyz'') c of
        None \<Rightarrow> c | Some l \<Rightarrow> l)"

definition lower :: "string \<Rightarrow> string" where
  "lower s = map toLower s"

definition Headers_has :: "Headers \<Rightarrow> string \<Rightarrow> bool" where
  "Headers_has h name \<longleftrightarrow> lower name \<in> set (map fst h)"

fun join :: "string list \<Rightarrow> string" where
  "join [] = []"
| "join [v] = v"
| "join (v # w # vs) = v @ '', '' @ join (w # vs)"

text \<open>\<^verbatim>\<open>get\<close> answers \<^verbatim>\<open>null\<close> for an absent name, the combined values otherwise.\<close>

definition Headers_get :: "Headers \<Rightarrow> string \<Rightarrow> string option" where
  "Headers_get h name =
     (if Headers_has h name then Some (join (map snd (filter (\<lambda>e. fst e = lower name) h)))
      else None)"

definition Headers_append :: "Headers \<Rightarrow> string \<Rightarrow> string \<Rightarrow> Headers" where
  "Headers_append h name v = h @ [(lower name, v)]"

text \<open>\<^verbatim>\<open>set\<close> overwrites the first entry of that name and drops the others.\<close>

fun set_first :: "Headers \<Rightarrow> string \<Rightarrow> string \<Rightarrow> Headers" where
  "set_first [] n v = []"
| "set_first (e # h) n v =
     (if fst e = n then (n, v) # filter (\<lambda>e'. fst e' \<noteq> n) h else e # set_first h n v)"

definition Headers_set :: "Headers \<Rightarrow> string \<Rightarrow> string \<Rightarrow> Headers" where
  "Headers_set h name v =
     (if Headers_has h name then set_first h (lower name) v else Headers_append h name v)"

text \<open>
  A request body: a string, a \<^verbatim>\<open>Blob\<close> with its declared type (possibly empty), or
  another kind of body with the content type the platform derives from it, if any.
\<close>

datatype Body = BodyString string | BodyBlob string | BodyOther "string option"

record Response =
  ok :: bool
  status :: nat
  bodyText :: string

record Request =
  url :: string
  headers :: Headers
  "method" :: "string option"
  body :: "Body option"
  mode :: "string option"
  credentials :: "string option"
  cache :: "string option"
  redirect :: "string option"
  referrer :: "string option"
  integrity :: "string option"

text \<open>
  The values that travel through the promise chains and are thrown: requests,
  responses, errors, and other values. \<open>JSOther s\<close> is any other value, one without an
  \<^verbatim>\<open>ok\<close> property, given by the string it converts to.
\<close>

datatype jsval =
    JSUndefined
  | JSNull
  | JSBoolean bool
  | JSString string
  | JSError string
  | JSTypeError string
  | JSRequest Request
  | JSResponse Response
  | JSOther string

text \<open>The conversion to a string that a template literal performs.\<close>

fun toString :: "jsval \<Rightarrow> string" where
  "toString JSUndefined = ''undefined''"
| "toString JSNull = ''null''"
| "toString (JSBoolean b) = (if b then ''true'' else ''false'')"
| "toString (JSString s) = s"
| "toString (JSError m) = ''Error: '' @ m"
| "toString (JSTypeError m) = ''TypeError: '' @ m"
| "toString (JSRequest r) = ''[object Request]''"
| "toString (JSResponse r) = ''[object Response]''"
| "toString (JSOther s) = s"

text \<open>
  A header value of a plain object: a string, or a function, given by its source text
  and by what calling it does (it throws, or it returns a string).
\<close>

datatype hval = Lit string | Callable string "jsval + string"

datatype headers_init = Plain "(string \<times> hval) list" | Instance Headers

text \<open>
  \<^verbatim>\<open>interface RequestInit\<close>: every property is optional; \<open>None\<close> is an absent property.
\<close>

record RequestInit =
  "method" :: "string option"
  headers :: "headers_init option"
  body :: "Body option"
  mode :: "string option"
  credentials :: "string option"
  cache :: "string option"
  redirect :: "string option"
  referrer :: "string option"
  integrity :: "string option"

definition empty_init :: RequestInit where
  "empty_init = \<lparr> method = None, headers = None, body = None, mode = None,
     credentials = None, cache = None, redirect = None, referrer = None, integrity = None \<rparr>"

text \<open>\<^verbatim>\<open>Object.assign(target, source)\<close> on two option sets: a property of the source wins.\<close>

definition over :: "'a option \<Rightarrow> 'a option \<Rightarrow> 'a option" where
  "over a b = (case b of None \<Rightarrow> a | Some x \<Rightarrow> Some x)"

definition Object_assign :: "RequestInit \<Rightarrow> RequestInit \<Rightarrow> RequestInit" where
  "Object_assign target source =
     \<lparr> method = over (RequestInit.method target) (RequestInit.method source),
       headers = over (RequestInit.headers target) (RequestInit.headers source),
       body = over (RequestInit.body target) (RequestInit.body source),
       mode = over (RequestInit.mode target) (RequestInit.mode source),
       credentials = over (RequestInit.credentials target) (RequestInit.credentials source),
       cache = over (RequestInit.cache target) (RequestInit.cache source),
       redirect = over (RequestInit.redirect target) (RequestInit.redirect source),
       referrer = over (RequestInit.referrer target) (RequestInit.referrer source),
       integrity = over (RequestInit.integrity target) (RequestInit.integrity source) \<rparr>"

text \<open>A source that is \<^verbatim>\<open>null\<close> or \<^verbatim>\<open>undefined\<close> is skipped.\<close>

definition Object_assign_opt :: "RequestInit \<Rightarrow> RequestInit option \<Rightarrow> RequestInit" where
  "Object_assign_opt target source =
     (case source of None \<Rightarrow> target | Some s \<Rightarrow> Object_assign target s)"

section \<open>Promises and interceptors\<close>

text \<open>
  A promise is given by how it settles: fulfilled with a value, rejected with a reason,
  or never settled. A handler is given by the settlement of what it returns: a returned
  value fulfils, a thrown value rejects, a returned promise settles as that promise does.
\<close>

datatype settled = Fulfilled jsval | Rejected jsval | Pending

type_synonym handler = "jsval \<Rightarrow> jsval list \<Rightarrow> settled"

record Interceptor =
  request :: "handler option"
  requestError :: "handler option"
  response :: "handler option"
  responseError :: "handler option"

text \<open>\<^verbatim>\<open>interceptor[name]\<close>\<close>

definition property :: "Interceptor \<Rightarrow> string \<Rightarrow> handler option" where
  "property i name =
     (if name = ''request'' then request i
      else if name = ''requestError'' then requestError i
      else if name = ''response'' then response i
      else if name = ''responseError'' then responseError i
      else None)"

text \<open>
  What happens during a call of \<^verbatim>\<open>fetch\<close>, in order: the counter updates, the
  construction of the request, the calls of interceptor handlers and of the transport.
\<close>

datatype event =
    TrackRequestStart
  | BuildRequest
  | Invoke string Interceptor
  | Transport Request
  | TrackRequestEnd

text \<open>
  \<^verbatim>\<open>promise.then(onFulfilled, onRejected)\<close>: the handler that runs may change the
  state \<open>s\<close> (the log of events, the client); for a promise that never settles
  neither runs.
\<close>

fun promise_then :: "settled \<Rightarrow> (jsval \<Rightarrow> 's \<Rightarrow> settled \<times> 's) \<Rightarrow> (jsval \<Rightarrow> 's \<Rightarrow> settled \<times> 's)
    \<Rightarrow> 's \<Rightarrow> settled \<times> 's" where
  "promise_then (Fulfilled v) onFulfilled onRejected s = onFulfilled v s"
| "promise_then (Rejected r) onFulfilled onRejected s = onRejected r s"
| "promise_then Pending onFulfilled onRejected s = (Pending, s)"

definition identity :: "jsval \<Rightarrow> 's \<Rightarrow> settled \<times> 's" where
  "identity x s = (Fulfilled x, s)"

definition thrower :: "jsval \<Rightarrow> 's \<Rightarrow> settled \<times> 's" where
  "thrower x s = (Rejected x, s)"

text \<open>
  \<^verbatim>\<open>value => interceptor::successHandler(value, ...interceptorArgs)\<close>, the call
  being recorded.
\<close>

definition call_handler :: "Interceptor \<Rightarrow> string \<Rightarrow> handler \<Rightarrow> jsval list \<Rightarrow> jsval
    \<Rightarrow> event list \<Rightarrow> settled \<times> event list" where
  "call_handler i name h args v log = (h v args, log @ [Invoke name i])"

text \<open>The function given to \<^verbatim>\<open>reduce\<close>.\<close>

definition chain_step :: "string \<Rightarrow> string \<Rightarrow> jsval list \<Rightarrow> settled \<times> event list \<Rightarrow> Interceptor
    \<Rightarrow> settled \<times> event list" where
  "chain_step successName errorName interceptorArgs chain interceptor =
     (let successHandler = property interceptor successName;
          errorHandler = property interceptor errorName
      in promise_then (fst chain)
           (case successHandler of
              Some h \<Rightarrow> call_handler interceptor successName h interceptorArgs
            | None \<Rightarrow> identity)
           (case errorHandler of
              Some h \<Rightarrow> call_handler interceptor errorName h interceptorArgs
            | None \<Rightarrow> thrower)
           (snd chain))"

text \<open>
  \<^verbatim>\<open>(interceptors || []).reduce(..., Promise.resolve(input))\<close>; the list of the client
  is always an array.
\<close>

definition applyInterceptors :: "settled \<Rightarrow> Interceptor list \<Rightarrow> string \<Rightarrow> string \<Rightarrow> jsval list
    \<Rightarrow> event list \<Rightarrow> settled \<times> event list" where
  "applyInterceptors input is successName errorName interceptorArgs log =
     foldl (chain_step successName errorName interceptorArgs) (input, log) is"

definition processRequest :: "settled \<Rightarrow> Interceptor list \<Rightarrow> event list \<Rightarrow> settled \<times> event list" where
  "processRequest req is log = applyInterceptors req is ''request'' ''requestError'' [] log"

definition processResponse :: "settled \<Rightarrow> Interceptor list \<Rightarrow> jsval \<Rightarrow> event list
    \<Rightarrow> settled \<times> event list" where
  "processResponse resp is req log =
     applyInterceptors resp is ''response'' ''responseError'' [req] log"

text \<open>
  \<^verbatim>\<open>function rejectOnError(response) { if (!response.ok) { throw response; } return response; }\<close>
  Reading \<^verbatim>\<open>ok\<close> from \<^verbatim>\<open>undefined\<close> or \<^verbatim>\<open>null\<close> throws; any other value
  that is not a response has no such property.
\<close>

fun rejectOnError :: "jsval \<Rightarrow> jsval list \<Rightarrow> settled" where
  "rejectOnError (JSResponse r) args =
     (if \<not> ok r then Rejected (JSResponse r) else Fulfilled (JSResponse r))"
| "rejectOnError JSUndefined args = Rejected (JSTypeError ''Cannot read property ok of undefined'')"
| "rejectOnError JSNull args = Rejected (JSTypeError ''Cannot read property ok of null'')"
| "rejectOnError v args = Rejected v"

section \<open>The configuration\<close>

text \<open>
  \<^verbatim>\<open>class HttpClientConfiguration\<close>. The same record stands for the plain object
  \<^verbatim>\<open>{ defaults: config }\<close> that \<^verbatim>\<open>configure\<close> builds, whose other properties are
  \<^verbatim>\<open>undefined\<close>.
\<close>

record HttpClientConfiguration =
  baseUrl :: "string option"
  defaults :: "RequestInit option"
  interceptors :: "Interceptor list option"

definition new_HttpClientConfiguration :: HttpClientConfiguration where
  "new_HttpClientConfiguration = \<lparr> baseUrl = Some [], defaults = Some empty_init, interceptors = Some [] \<rparr>"

definition withBaseUrl :: "HttpClientConfiguration \<Rightarrow> string \<Rightarrow> HttpClientConfiguration" where
  "withBaseUrl this b = this\<lparr> baseUrl := Some b \<rparr>"

definition withDefaults :: "HttpClientConfiguration \<Rightarrow> RequestInit option \<Rightarrow> HttpClientConfiguration" where
  "withDefaults this d = this\<lparr> defaults := d \<rparr>"

text \<open>\<^verbatim>\<open>this.interceptors.push(interceptor)\<close>\<close>

definition withInterceptor :: "HttpClientConfiguration \<Rightarrow> Interceptor \<Rightarrow> jsval + HttpClientConfiguration" where
  "withInterceptor this interceptor =
     (case interceptors this of
        None \<Rightarrow> Inl (JSTypeError ''Cannot read property push of undefined'')
      | Some is \<Rightarrow> Inr (this\<lparr> interceptors := Some (is @ [interceptor]) \<rparr>))"

text \<open>The object literal \<^verbatim>\<open>{ response: rejectOnError }\<close>.\<close>

definition response_rejectOnError :: Interceptor where
  "response_rejectOnError =
     \<lparr> request = None, requestError = None, response = Some rejectOnError, responseError = None \<rparr>"

definition rejectErrorResponses :: "HttpClientConfiguration \<Rightarrow> jsval + HttpClientConfiguration" where
  "rejectErrorResponses this = withInterceptor this response_rejectOnError"

text \<open>
  \<^verbatim>\<open>Object.assign(this.defaults, standardConfig, this.defaults)\<close>: the target and the
  last source are the same object, so the last source is read after \<^verbatim>\<open>standardConfig\<close>
  has been copied into it.
\<close>

definition useStandardConfiguration :: "HttpClientConfiguration \<Rightarrow> jsval + HttpClientConfiguration" where
  "useStandardConfiguration this =
     (let standardConfig = empty_init\<lparr> credentials := Some ''same-origin'' \<rparr>
      in case defaults this of
           None \<Rightarrow> Inl (JSTypeError ''Cannot convert undefined or null to object'')
         | Some d \<Rightarrow>
             (let d1 = Object_assign d standardConfig;
                  d2 = Object_assign d1 d1
              in rejectErrorResponses (this\<lparr> defaults := Some d2 \<rparr>)))"

section \<open>The client\<close>

record HttpClient =
  activeRequestCount :: int
  isRequesting :: bool
  isConfigured :: bool
  baseUrl :: "string option"
  defaults :: "RequestInit option"
  interceptors :: "Interceptor list"

text \<open>The fields as the class declares them.\<close>

definition initial_client :: HttpClient where
  "initial_client =
     \<lparr> activeRequestCount = 0, isRequesting = False, isConfigured = False,
       baseUrl = Some [], defaults = None, interceptors = [] \<rparr>"

text \<open>The constructor fails when the environment has no \<^verbatim>\<open>fetch\<close>.\<close>

definition new_HttpClient :: "bool \<Rightarrow> jsval + HttpClient" where
  "new_HttpClient fetch_defined =
     (if \<not> fetch_defined
      then Inl (JSError (''HttpClient requires a Fetch API implementation, but the current environment does not support it. '' @ ''You may need to load a polyfill such as https://github.com/github/fetch.''))
      else Inr initial_client)"

subsection \<open>configure\<close>

text \<open>
  The callback given to \<^verbatim>\<open>configure\<close> receives a configuration whose
  \<^verbatim>\<open>interceptors\<close> is the very array of the client. It is modelled by what it does:
  \<open>array_after\<close> is the content of that array when the callback is done (it grows when
  the callback pushes onto it), and the callback either throws, or leaves the
  configuration it was given in some state and returns an
  \<^verbatim>\<open>HttpClientConfiguration\<close> (\<open>Some\<close>) or anything else (\<open>None\<close>).
\<close>

record callback_result =
  array_after :: "Interceptor list"
  completion :: "jsval + HttpClientConfiguration \<times> HttpClientConfiguration option"

datatype config_arg =
    ArgUndefined
  | ArgNull
  | ArgBoolean bool
  | ArgNumber int
  | ArgString string
  | ArgObject RequestInit
  | ArgFunction "HttpClientConfiguration \<Rightarrow> callback_result"

fun typeof :: "config_arg \<Rightarrow> string" where
  "typeof ArgUndefined = ''undefined''"
| "typeof ArgNull = ''object''"
| "typeof (ArgBoolean b) = ''boolean''"
| "typeof (ArgNumber n) = ''number''"
| "typeof (ArgString s) = ''string''"
| "typeof (ArgObject d) = ''object''"
| "typeof (ArgFunction f) = ''function''"

text \<open>The argument as the value of \<^verbatim>\<open>defaults\<close> in \<^verbatim>\<open>{ defaults: config }\<close>.\<close>

fun as_defaults :: "config_arg \<Rightarrow> RequestInit option" where
  "as_defaults (ArgObject d) = Some d"
| "as_defaults _ = None"

text \<open>
  \<^verbatim>\<open>Headers.prototype.isPrototypeOf(defaults.headers)\<close> behind the guard
  \<^verbatim>\<open>defaults &&\<close>.
\<close>

definition headers_instance :: "RequestInit option \<Rightarrow> bool" where
  "headers_instance d =
     (case d of None \<Rightarrow> False
      | Some d' \<Rightarrow> (case RequestInit.headers d' of Some (Instance h) \<Rightarrow> True | _ \<Rightarrow> False))"

text \<open>The second half of \<^verbatim>\<open>configure\<close>, from \<^verbatim>\<open>let defaults = normalizedConfig.defaults\<close> on.\<close>

definition install :: "HttpClientConfiguration \<Rightarrow> HttpClient \<Rightarrow> (jsval + unit) \<times> HttpClient" where
  "install normalizedConfig this =
     (let d = HttpClientConfiguration.defaults normalizedConfig
      in if headers_instance d
         then (Inl (JSError ''Default headers must be a plain object.''), this)
         else (Inr (),
               this\<lparr> HttpClient.baseUrl := HttpClientConfiguration.baseUrl normalizedConfig,
                     HttpClient.defaults := d,
                     HttpClient.interceptors :=
                       (case HttpClientConfiguration.interceptors normalizedConfig of
                          None \<Rightarrow> [] | Some is \<Rightarrow> is),
                     isConfigured := True \<rparr>))"

text \<open>
  The configuration that the callback receives: the base URL of the client, a copy of
  its defaults, and its array of interceptors.
\<close>

definition seed :: "HttpClient \<Rightarrow> HttpClientConfiguration" where
  "seed this =
     \<lparr> HttpClientConfiguration.baseUrl = HttpClient.baseUrl this,
       HttpClientConfiguration.defaults =
         Some (Object_assign_opt empty_init (HttpClient.defaults this)),
       HttpClientConfiguration.interceptors = Some (HttpClient.interceptors this) \<rparr>"

text \<open>
  The first half of \<^verbatim>\<open>configure\<close>: the value of \<^verbatim>\<open>normalizedConfig\<close>, or the error
  thrown, and the client as the callback leaves it.
\<close>

definition normalizeConfig :: "config_arg \<Rightarrow> HttpClient \<Rightarrow> (jsval + HttpClientConfiguration) \<times> HttpClient" where
  "normalizeConfig config this =
     (if typeof config = ''object'' then
        (Inr \<lparr> HttpClientConfiguration.baseUrl = None,
               HttpClientConfiguration.defaults = as_defaults config,
               HttpClientConfiguration.interceptors = None \<rparr>, this)
      else if typeof config = ''function'' then
        (case config of
           ArgFunction f \<Rightarrow>
             (let normalizedConfig = seed this;
                  r = f normalizedConfig;
                  this1 = this\<lparr> HttpClient.interceptors := array_after r \<rparr>
              in case completion r of
                   Inl e \<Rightarrow> (Inl e, this1)
                 | Inr (seed_after, c) \<Rightarrow>
                     (Inr (case c of Some c' \<Rightarrow> c' | None \<Rightarrow> seed_after), this1))
         | _ \<Rightarrow> (Inl (JSError ''invalid config''), this))
      else (Inl (JSError ''invalid config''), this))"

text \<open>
  \<^verbatim>\<open>configure(config)\<close> returns the outcome (an error thrown, or the client itself)
  and the state of the client afterwards.
\<close>

definition configure :: "config_arg \<Rightarrow> HttpClient \<Rightarrow> (jsval + unit) \<times> HttpClient" where
  "configure config this =
     (case normalizeConfig config this of
        (Inl e, this1) \<Rightarrow> (Inl e, this1)
      | (Inr normalizedConfig, this1) \<Rightarrow> install normalizedConfig this1)"

text \<open>
  The cases that the specification of \<^verbatim>\<open>configure\<close> names: the argument is a plain
  object of default options, the argument is a callback, the callback throws.
\<close>

fun plain_options_object :: "config_arg \<Rightarrow> bool" where
  "plain_options_object (ArgObject d) = True"
| "plain_options_object _ = False"

fun callback_function :: "config_arg \<Rightarrow> bool" where
  "callback_function (ArgFunction f) = True"
| "callback_function _ = False"

fun callback_throws :: "config_arg \<Rightarrow> HttpClient \<Rightarrow> bool" where
  "callback_throws (ArgFunction f) this = isl (completion (f (seed this)))"
| "callback_throws _ this = False"

text \<open>The default headers of the resulting configuration are a \<^verbatim>\<open>Headers\<close> instance.\<close>

definition resulting_headers_instance :: "config_arg \<Rightarrow> HttpClient \<Rightarrow> bool" where
  "resulting_headers_instance config this =
     (case fst (normalizeConfig config this) of
        Inl e \<Rightarrow> False
      | Inr normalizedConfig \<Rightarrow> headers_instance (HttpClientConfiguration.defaults normalizedConfig))"

text \<open>
  When \<^verbatim>\<open>configure\<close> fails, in the words of the specification: the argument is
  neither a plain object of default options nor a callback, or the resulting default
  headers are a \<^verbatim>\<open>Headers\<close> instance.
\<close>

definition failure_specified :: "config_arg \<Rightarrow> HttpClient \<Rightarrow> bool" where
  "failure_specified config this \<longleftrightarrow>
     (\<not> plain_options_object config \<and> \<not> callback_function config)
     \<or> resulting_headers_instance config this"

subsection \<open>The counter of active requests\<close>

definition trackRequestStart :: "HttpClient \<Rightarrow> HttpClient" where
  "trackRequestStart this =
     this\<lparr> activeRequestCount := activeRequestCount this + 1,
           isRequesting := (activeRequestCount this + 1 \<noteq> 0) \<rparr>"

definition trackRequestEnd :: "HttpClient \<Rightarrow> HttpClient" where
  "trackRequestEnd this =
     this\<lparr> activeRequestCount := activeRequestCount this - 1,
           isRequesting := (activeRequestCount this - 1 \<noteq> 0) \<rparr>"

text \<open>
  \<^verbatim>\<open>let handle = this::trackRequestEnd; promise.then(handle, handle); return promise;\<close>
\<close>

definition handle :: "jsval \<Rightarrow> event list \<times> HttpClient \<Rightarrow> settled \<times> event list \<times> HttpClient" where
  "handle v w = (Fulfilled JSUndefined, (fst w @ [TrackRequestEnd], trackRequestEnd (snd w)))"

definition trackRequestEndWith :: "settled \<Rightarrow> event list \<times> HttpClient
    \<Rightarrow> settled \<times> event list \<times> HttpClient" where
  "trackRequestEndWith promise w = (promise, snd (promise_then promise handle handle w))"

subsection \<open>Building the request\<close>

text \<open>
  A plain object of header values is the list of its own properties in the order in
  which \<^verbatim>\<open>for ... in\<close> visits them. \<^verbatim>\<open>parseHeaderValues\<close> calls the values that
  are functions; a call that throws ends the loop.
\<close>

fun parse_loop :: "(string \<times> hval) list \<Rightarrow> (string \<times> string) list \<Rightarrow> jsval + (string \<times> string) list" where
  "parse_loop [] parsedHeaders = Inr parsedHeaders"
| "parse_loop ((name, Lit s) # rest) parsedHeaders =
     parse_loop rest (AList.update name s parsedHeaders)"
| "parse_loop ((name, Callable src res) # rest) parsedHeaders =
     (case res of
        Inl e \<Rightarrow> Inl e
      | Inr s \<Rightarrow> parse_loop rest (AList.update name s parsedHeaders))"

text \<open>A \<^verbatim>\<open>Headers\<close> instance has no own enumerable properties.\<close>

definition parseHeaderValues :: "headers_init option \<Rightarrow> jsval + (string \<times> string) list" where
  "parseHeaderValues hs =
     (case hs of
        None \<Rightarrow> Inr []
      | Some (Instance h) \<Rightarrow> Inr []
      | Some (Plain obj) \<Rightarrow> parse_loop obj [])"

text \<open>\<^verbatim>\<open>new Headers(init)\<close>: each property of a plain object is appended.\<close>

definition Headers_of_object :: "(string \<times> string) list \<Rightarrow> Headers" where
  "Headers_of_object obj = foldl (\<lambda>h e. Headers_append h (fst e) (snd e)) [] obj"

fun hval_string :: "hval \<Rightarrow> string" where
  "hval_string (Lit s) = s"
| "hval_string (Callable src res) = src"

definition new_Headers :: "headers_init option \<Rightarrow> Headers" where
  "new_Headers hs =
     (case hs of
        None \<Rightarrow> []
      | Some (Instance h) \<Rightarrow> h
      | Some (Plain obj) \<Rightarrow> Headers_of_object (map (\<lambda>e. (fst e, hval_string (snd e))) obj))"

text \<open>The content type that the platform derives from a body.\<close>

fun body_content_type :: "Body \<Rightarrow> string option" where
  "body_content_type (BodyString s) = Some ''text/plain;charset=UTF-8''"
| "body_content_type (BodyBlob t) = (if t = [] then None else Some t)"
| "body_content_type (BodyOther t) = t"

text \<open>
  \<^verbatim>\<open>new Request(url, init)\<close>: the headers of \<open>init\<close>, and the content type of the
  body when the headers give none. The failures of the platform's constructor are not
  part of this model.
\<close>

definition new_Request :: "string \<Rightarrow> RequestInit \<Rightarrow> Request" where
  "new_Request u init =
     (let h = new_Headers (RequestInit.headers init);
          h' = (case RequestInit.body init of
                  None \<Rightarrow> h
                | Some b \<Rightarrow>
                    (case body_content_type b of
                       None \<Rightarrow> h
                     | Some t \<Rightarrow>
                         if Headers_has h ''Content-Type'' then h
                         else Headers_append h ''Content-Type'' t))
      in \<lparr> Request.url = u, Request.headers = h',
           Request.method = RequestInit.method init,
           Request.body = RequestInit.body init,
           Request.mode = RequestInit.mode init,
           Request.credentials = RequestInit.credentials init,
           Request.cache = RequestInit.cache init,
           Request.redirect = RequestInit.redirect init,
           Request.referrer = RequestInit.referrer init,
           Request.integrity = RequestInit.integrity init \<rparr>)"

text \<open>The truth value of a string that may be \<^verbatim>\<open>null\<close>, and of a body.\<close>

definition truthy :: "string option \<Rightarrow> bool" where
  "truthy v = (case v of None \<Rightarrow> False | Some s \<Rightarrow> s \<noteq> [])"

fun truthy_body :: "Body option \<Rightarrow> bool" where
  "truthy_body None = False"
| "truthy_body (Some (BodyString s)) = (s \<noteq> [])"
| "truthy_body (Some b) = True"

text \<open>The string that a header value which may be \<^verbatim>\<open>null\<close> is stored as.\<close>

definition or_null :: "string option \<Rightarrow> string" where
  "or_null v = (case v of None \<Rightarrow> ''null'' | Some s \<Rightarrow> s)"

text \<open>
  \<^verbatim>\<open>for (let name in defaultHeaders || {}) {
    if (defaultHeaders.hasOwnProperty(name) && !headers.has(name)) {
      headers.set(name, defaultHeaders[name]); } }\<close>
\<close>

fun setDefaultHeaders :: "Headers \<Rightarrow> (string \<times> string) list \<Rightarrow> Headers" where
  "setDefaultHeaders h [] = h"
| "setDefaultHeaders h ((name, v) # rest) =
     setDefaultHeaders (if \<not> Headers_has h name then Headers_set h name v else h) rest"

datatype fetch_input = InputRequest Request | InputUrl string

text \<open>
  The request, the body and the content type of the request as \<^verbatim>\<open>buildRequest\<close>
  has them after its \<^verbatim>\<open>if ... else\<close>.
\<close>

definition initial_request :: "HttpClient \<Rightarrow> RequestInit \<Rightarrow> fetch_input \<Rightarrow> RequestInit option
    \<Rightarrow> Request \<times> Body option \<times> string option" where
  "initial_request this d input init =
     (case input of
        InputRequest r \<Rightarrow> (r, None, Headers_get (Request.headers r) ''Content-Type'')
      | InputUrl u \<Rightarrow>
          (let init1 = (case init of None \<Rightarrow> empty_init | Some i \<Rightarrow> i);
               b = RequestInit.body init1;
               bodyObj = (if truthy_body b then Some (empty_init\<lparr> RequestInit.body := b \<rparr>) else None);
               requestInit =
                 Object_assign_opt
                   (Object_assign
                      (Object_assign (Object_assign empty_init d)
                         (empty_init\<lparr> RequestInit.headers := Some (Plain []) \<rparr>))
                      init1)
                   bodyObj;
               requestContentType = Headers_get (new_Headers (RequestInit.headers requestInit)) ''Content-Type''
           in (new_Request (getRequestUrl (HttpClient.baseUrl this) u) requestInit, b,
               requestContentType)))"

definition buildRequest :: "HttpClient \<Rightarrow> fetch_input \<Rightarrow> RequestInit option \<Rightarrow> jsval + Request" where
  "buildRequest this input init =
     (let d = (case HttpClient.defaults this of None \<Rightarrow> empty_init | Some d' \<Rightarrow> d')
      in case parseHeaderValues (RequestInit.headers d) of
           Inl e \<Rightarrow> Inl e
         | Inr parsedDefaultHeaders \<Rightarrow>
             (let (r0, b, requestContentType) = initial_request this d input init;
                  r1 = (if \<not> truthy requestContentType
                          \<and> Headers_has (Headers_of_object parsedDefaultHeaders) ''content-type''
                        then r0\<lparr> Request.headers :=
                               Headers_set (Request.headers r0) ''Content-Type''
                                 (or_null (Headers_get (Headers_of_object parsedDefaultHeaders)
                                    ''content-type'')) \<rparr>
                        else r0);
                  r2 = r1\<lparr> Request.headers :=
                         setDefaultHeaders (Request.headers r1) parsedDefaultHeaders \<rparr>;
                  r3 = (case b of
                          Some (BodyBlob t) \<Rightarrow>
                            if t \<noteq> [] then r2\<lparr> Request.headers :=
                              Headers_set (Request.headers r2) ''Content-Type'' t \<rparr> else r2
                        | _ \<Rightarrow> r2)
              in Inr r3))"

text \<open>The headers that the options of a call set, as the platform reads them.\<close>

definition call_headers :: "RequestInit option \<Rightarrow> Headers" where
  "call_headers init =
     new_Headers (case init of None \<Rightarrow> None | Some i \<Rightarrow> RequestInit.headers i)"

subsection \<open>fetch\<close>

text \<open>
  \<^verbatim>\<open>Promise.resolve().then(() => this::buildRequest(input, init, this.defaults))\<close>
\<close>

definition build_promise :: "HttpClient \<Rightarrow> fetch_input \<Rightarrow> RequestInit option \<Rightarrow> jsval
    \<Rightarrow> event list \<Rightarrow> settled \<times> event list" where
  "build_promise this input init u log =
     ((case buildRequest this input init of
         Inl e \<Rightarrow> Rejected e
       | Inr r \<Rightarrow> Fulfilled (JSRequest r)),
      log @ [BuildRequest])"

text \<open>
  The handler given to \<^verbatim>\<open>processRequest(...).then\<close>. The transport is the
  platform's \<^verbatim>\<open>fetch\<close>, given by how its promise settles. \<open>req\<close> is the promise
  held by the variable \<^verbatim>\<open>request\<close> of \<^verbatim>\<open>fetch\<close>.
\<close>

definition dispatch :: "(Request \<Rightarrow> settled) \<Rightarrow> HttpClient \<Rightarrow> settled \<Rightarrow> jsval \<Rightarrow> event list
    \<Rightarrow> settled \<times> event list" where
  "dispatch transport this req result log =
     (case result of
        JSResponse r \<Rightarrow>
          promise_then req
            (\<lambda>req0. processResponse (Fulfilled result) (HttpClient.interceptors this) req0)
            thrower log
      | JSRequest r \<Rightarrow>
          (let req1 = Fulfilled result;
               resp = transport r
           in promise_then req1
                (\<lambda>req0. processResponse resp (HttpClient.interceptors this) req0)
                thrower (log @ [Transport r]))
      | _ \<Rightarrow>
          (Rejected (JSError (''An invalid result was returned by the interceptor chain. Expected a Request or Response instance, but got ['' @ toString result @ '']'')),
           log))"

text \<open>The promise that \<^verbatim>\<open>fetch\<close> hands to \<^verbatim>\<open>trackRequestEndWith\<close>.\<close>

definition pipeline :: "(Request \<Rightarrow> settled) \<Rightarrow> fetch_input \<Rightarrow> RequestInit option \<Rightarrow> HttpClient
    \<Rightarrow> event list \<Rightarrow> settled \<times> event list" where
  "pipeline transport input init this log0 =
     (let (req, log1) = promise_then (Fulfilled JSUndefined) (build_promise this input init) thrower log0;
          (result, log2) = processRequest req (HttpClient.interceptors this) log1
      in promise_then result (dispatch transport this req) thrower log2)"

text \<open>
  \<^verbatim>\<open>fetch(input, init)\<close> on the client \<open>this0\<close>: how the returned promise settles,
  what happened in order, and the client afterwards. The counter is a JavaScript
  number, modelled as an integer.
\<close>

definition fetch :: "(Request \<Rightarrow> settled) \<Rightarrow> fetch_input \<Rightarrow> RequestInit option \<Rightarrow> HttpClient
    \<Rightarrow> settled \<times> event list \<times> HttpClient" where
  "fetch transport input init this0 =
     (let this = trackRequestStart this0;
          (promise, log) = pipeline transport input init this [TrackRequestStart]
      in trackRequestEndWith promise (log, this))"

subsection \<open>Calls in flight at the same time\<close>

text \<open>
  Calls of \<^verbatim>\<open>fetch\<close> on one client run on a single thread, their steps interleaved
  at the promise boundaries. The counter is touched by two kinds of event only.
\<close>

fun apply_event :: "event \<Rightarrow> HttpClient \<Rightarrow> HttpClient" where
  "apply_event TrackRequestStart this = trackRequestStart this"
| "apply_event TrackRequestEnd this = trackRequestEnd this"
| "apply_event e this = this"

definition run_events :: "event list \<Rightarrow> HttpClient \<Rightarrow> HttpClient" where
  "run_events log this = fold apply_event log this"

text \<open>All the ways of interleaving the event sequences of several calls.\<close>

fun interleavings :: "'a list list \<Rightarrow> 'a list set" where
  "interleavings [] = {[]}"
| "interleavings (l # ls) = (\<Union>s \<in> interleavings ls. shuffles l s)"

text \<open>
  A call of \<^verbatim>\<open>fetch\<close>: the transport, the arguments and the client it runs on;
  whether its promise settles, and the sequence of its events.
\<close>

type_synonym call = "(Request \<Rightarrow> settled) \<times> fetch_input \<times> RequestInit option \<times> HttpClient"

definition call_settles :: "call \<Rightarrow> bool" where
  "call_settles c =
     (case c of (transport, input, init, this) \<Rightarrow> fst (fetch transport input init this) \<noteq> Pending)"

definition call_log :: "call \<Rightarrow> event list" where
  "call_log c =
     (case c of (transport, input, init, this) \<Rightarrow> fst (snd (fetch transport input init this)))"

subsection \<open>The interceptors called\<close>



section \<open>Example clients\<close>

text \<open>
  A client whose default headers hold a function that throws, and whose only
  interceptor recovers from a failed request with a response.
\<close>

definition recovered :: Response where
  "recovered = \<lparr> ok = True, status = 200, bodyText = ''recovered'' \<rparr>"

definition recovering :: Interceptor where
  "recovering =
     \<lparr> request = None,
       requestError = Some (\<lambda>e args. Fulfilled (JSResponse recovered)),
       response = Some (\<lambda>v args. Fulfilled v),
       responseError = Some (\<lambda>e args. Rejected e) \<rparr>"

definition failing_defaults :: RequestInit where
  "failing_defaults = empty_init\<lparr> RequestInit.headers :=
     Some (Plain [(''Authorization'',
       Callable ''() => { throw new Error(no token) }'' (Inl (JSError ''no token'')))]) \<rparr>"

definition failing_client :: HttpClient where
  "failing_client = initial_client\<lparr> HttpClient.defaults := Some failing_defaults,
      HttpClient.interceptors := [recovering] \<rparr>"

text \<open>A client with a default content type, and options that set an empty one.\<close>

definition json_defaults :: RequestInit where
  "json_defaults = empty_init\<lparr> RequestInit.headers :=
     Some (Plain [(''Content-Type'', Lit ''application/json'')]) \<rparr>"

definition json_client :: HttpClient where
  "json_client = initial_client\<lparr> HttpClient.defaults := Some json_defaults \<rparr>"

definition empty_content_type :: RequestInit where
  "empty_content_type = empty_init\<lparr> RequestInit.headers :=
     Some (Plain [(''Content-Type'', Lit [])]) \<rparr>"

text \<open>Default options whose headers are a \<^verbatim>\<open>Headers\<close> instance.\<close>

definition instance_defaults :: RequestInit where
  "instance_defaults = empty_init\<lparr> RequestInit.headers := Some (Instance [(''x-test'', ''1'')]) \<rparr>"

text \<open>Responses with a failure status and with a success status.\<close>

definition not_found :: Response where
  "not_found = \<lparr> ok = False, status = 404, bodyText = [] \<rparr>"

definition found :: Response where
  "found = \<lparr> ok = True, status = 200, bodyText = ''{}'' \<rparr>"

text \<open>An interceptor with all four handlers, one with none, and a transport.\<close>

definition passing :: Interceptor where
  "passing =
     \<lparr> request = Some (\<lambda>v args. Fulfilled v),
       requestError = Some (\<lambda>e args. Rejected e),
       response = Some (\<lambda>v args. Fulfilled v),
       responseError = Some (\<lambda>e args. Rejected e) \<rparr>"

definition silent :: Interceptor where
  "silent = \<lparr> request = None, requestError = None, response = None, responseError = None \<rparr>"

definition answering :: "Request \<Rightarrow> settled" where
  "answering r = Fulfilled (JSResponse found)"

definition refusing :: "Request \<Rightarrow> settled" where
  "refusing r = Fulfilled (JSResponse not_found)"

definition hanging :: "Request \<Rightarrow> settled" where
  "hanging r = Pending"

text \<open>The request that the client with the default content type builds for \<^verbatim>\<open>'users'\<close>.\<close>

definition users_request :: Request where
  "users_request =
     \<lparr> Request.url = ''users'', Request.headers = [(''content-type'', ''application/json'')],
       Request.method = None, Request.body = None, Request.mode = None,
       Request.credentials = None, Request.cache = None, Request.redirect = None,
       Request.referrer = None, Request.integrity = None \<rparr>"

text \<open>
  Callbacks for \<^verbatim>\<open>configure\<close>: one that throws, and
  \<^verbatim>\<open>config => config.useStandardConfiguration()\<close>. \<open>untouched\<close> is the array of
  interceptors as the callback received it.
\<close>

definition untouched :: "HttpClientConfiguration \<Rightarrow> Interceptor list" where
  "untouched cfg = (case HttpClientConfiguration.interceptors cfg of None \<Rightarrow> [] | Some is \<Rightarrow> is)"

definition throwing_callback :: "HttpClientConfiguration \<Rightarrow> callback_result" where
  "throwing_callback cfg = \<lparr> array_after = untouched cfg, completion = Inl (JSError ''boom'') \<rparr>"

definition standard_callback :: "HttpClientConfiguration \<Rightarrow> callback_result" where
  "standard_callback cfg =
     (case useStandardConfiguration cfg of
        Inl e \<Rightarrow> \<lparr> array_after = untouched cfg, completion = Inl e \<rparr>
      | Inr cfg' \<Rightarrow> \<lparr> array_after = untouched cfg', completion = Inr (cfg', Some cfg') \<rparr>)"

text \<open>
  The client after \<^verbatim>\<open>configure(config => config.useStandardConfiguration())\<close>,
  and the request it builds for \<^verbatim>\<open>'users'\<close>.
\<close>

definition standard_client :: HttpClient where
  "standard_client =
     \<lparr> activeRequestCount = 0, isRequesting = False, isConfigured = True,
       baseUrl = Some [],
       defaults = Some (empty_init\<lparr> RequestInit.credentials := Some ''same-origin'' \<rparr>),
       interceptors = [response_rejectOnError] \<rparr>"

definition standard_request :: Request where
  "standard_request =
     \<lparr> Request.url = ''users'', Request.headers = [],
       Request.method = None, Request.body = None, Request.mode = None,
       Request.credentials = Some ''same-origin'', Request.cache = None, Request.redirect = None,
       Request.referrer = None, Request.integrity = None \<rparr>"

text \<open>
  A callback that sets the base URL \<^verbatim>\<open>/api/\<close> and the default header
  \<^verbatim>\<open>X-Test: 1\<close>, the client after it, and the request that client builds for
  \<^verbatim>\<open>'users'\<close>.
\<close>

definition api_defaults :: RequestInit where
  "api_defaults = empty_init\<lparr> RequestInit.headers := Some (Plain [(''X-Test'', Lit ''1'')]) \<rparr>"

definition api_callback :: "HttpClientConfiguration \<Rightarrow> callback_result" where
  "api_callback cfg =
     (let cfg' = withDefaults (withBaseUrl cfg ''/api/'') (Some api_defaults)
      in \<lparr> array_after = untouched cfg', completion = Inr (cfg', None) \<rparr>)"

definition api_client :: HttpClient where
  "api_client =
     \<lparr> activeRequestCount = 0, isRequesting = False, isConfigured = True,
       baseUrl = Some ''/api/'', defaults = Some api_defaults, interceptors = [] \<rparr>"

definition api_request :: Request where
  "api_request =
     \<lparr> Request.url = ''/api/users'', Request.headers = [(''x-test'', ''1'')],
       Request.method = None, Request.body = None, Request.mode = None,
       Request.credentials = None, Request.cache = None, Request.redirect = None,
       Request.referrer = None, Request.integrity = None \<rparr>"

section \<open>Properties of URL resolution\<close>

lemma startsWith_iff: "startsWith lit s \<longleftrightarrow> (\<exists>rest. s = lit @ rest)"
proof
  assume "startsWith lit s"
  then have "s = lit @ drop (length lit) s"
    unfolding startsWith_def by (metis append_take_drop_id)
  then show "\<exists>rest. s = lit @ rest" ..
next
  assume "\<exists>rest. s = lit @ rest"
  then show "startsWith lit s"
    unfolding startsWith_def by auto
qed

lemma star_then_iff:
  "star_then p k s \<longleftrightarrow> (\<exists>run rest. s = run @ rest \<and> list_all p run \<and> k rest)"
proof (induction s)
  case Nil
  then show ?case by simp
next
  case (Cons c cs)
  show ?case
  proof
    assume "star_then p k (c # cs)"
    then consider "p c" "star_then p k cs" | "k (c # cs)" by auto
    then show "\<exists>run rest. c # cs = run @ rest \<and> list_all p run \<and> k rest"
    proof cases
      case 1
      with Cons.IH obtain run rest where "cs = run @ rest" "list_all p run" "k rest"
        by blast
      with 1 have "c # cs = (c # run) @ rest \<and> list_all p (c # run) \<and> k rest"
        by simp
      then show ?thesis by blast
    next
      case 2
      then have "c # cs = [] @ (c # cs) \<and> list_all p [] \<and> k (c # cs)" by simp
      then show ?thesis by blast
    qed
  next
    assume "\<exists>run rest. c # cs = run @ rest \<and> list_all p run \<and> k rest"
    then obtain run rest where r: "c # cs = run @ rest" "list_all p run" "k rest"
      by blast
    show "star_then p k (c # cs)"
    proof (cases run)
      case Nil
      with r have "k (c # cs)" by simp
      then show ?thesis by simp
    next
      case (Cons d run')
      with r have "d = c" "cs = run' @ rest" "p c" "list_all p run'" by simp_all
      with r(3) Cons.IH show ?thesis by auto
    qed
  qed
qed

lemma colon_slashes_iff: "colon_slashes s \<longleftrightarrow> (\<exists>rest. s = '':'' @ ''//'' @ rest)"
  unfolding colon_slashes_def startsWith_iff by (cases s) auto

lemma absoluteUrlRegexp_test_iff:
  "absoluteUrlRegexp_test target \<longleftrightarrow> matches_absolute_pattern target"
proof -
  have "(case target of [] \<Rightarrow> False | c # cs \<Rightarrow> isLetter c \<and> star_then isSchemeChar colon_slashes cs)
          \<longleftrightarrow> has_scheme_prefix target"
  proof (cases target)
    case Nil
    then show ?thesis by (simp add: has_scheme_prefix_def)
  next
    case (Cons c cs)
    have "(isLetter c \<and> star_then isSchemeChar colon_slashes cs) \<longleftrightarrow>
            (\<exists>scheme rest. cs = scheme @ '':'' @ ''//'' @ rest \<and> isLetter c
               \<and> list_all isSchemeChar scheme)"
      unfolding star_then_iff colon_slashes_iff by blast
    with Cons show ?thesis
      unfolding has_scheme_prefix_def by simp
  qed
  then show ?thesis
    unfolding absoluteUrlRegexp_test_def matches_absolute_pattern_def
      protocol_relative_def startsWith_iff by simp
qed

text \<open>
  C1. A target that matches the absolute-URL pattern is resolved to itself, the base
  URL never being prepended; any other target is resolved to the configured base URL
  followed by the target, where an unset base URL stands for the empty string.
\<close>

theorem getRequestUrl_absolute_or_prefixed:
  "(matches_absolute_pattern target \<longrightarrow> getRequestUrl base target = target) \<and>
   (\<not> matches_absolute_pattern target \<longrightarrow>
      getRequestUrl base target = (case base of None \<Rightarrow> '''' | Some b \<Rightarrow> b) @ target)"
  unfolding getRequestUrl_def absoluteUrlRegexp_test_iff or_empty_def
  by (simp split: option.split)

theorem getRequestUrl_absolute_or_prefixed_witness:
  "matches_absolute_pattern ''HTTPS://cdn.example/x''
   \<and> getRequestUrl (Some ''/api/'') ''HTTPS://cdn.example/x'' = ''HTTPS://cdn.example/x''
   \<and> matches_absolute_pattern ''//cdn.example/x''
   \<and> getRequestUrl (Some ''/api/'') ''//cdn.example/x'' = ''//cdn.example/x''
   \<and> \<not> matches_absolute_pattern ''users''
   \<and> getRequestUrl (Some ''/api/'') ''users'' = ''/api/users''
   \<and> \<not> matches_absolute_pattern ''mailto:a@b''
   \<and> getRequestUrl None ''mailto:a@b'' = ''mailto:a@b''"
proof -
  have a: "matches_absolute_pattern ''HTTPS://cdn.example/x''"
    unfolding absoluteUrlRegexp_test_iff [symmetric]
    by (simp add: absoluteUrlRegexp_test_def isLetter_def isSchemeChar_def
        colon_slashes_def startsWith_def)
  have b: "matches_absolute_pattern ''//cdn.example/x''"
    unfolding absoluteUrlRegexp_test_iff [symmetric]
    by (simp add: absoluteUrlRegexp_test_def isLetter_def isSchemeChar_def
        colon_slashes_def startsWith_def)
  have c: "\<not> matches_absolute_pattern ''users''"
    unfolding absoluteUrlRegexp_test_iff [symmetric]
    by (simp add: absoluteUrlRegexp_test_def isLetter_def isSchemeChar_def
        colon_slashes_def startsWith_def)
  have d: "\<not> matches_absolute_pattern ''mailto:a@b''"
    unfolding absoluteUrlRegexp_test_iff [symmetric]
    by (simp add: absoluteUrlRegexp_test_def isLetter_def isSchemeChar_def
        colon_slashes_def startsWith_def)
  show ?thesis
    using a b c d
      getRequestUrl_absolute_or_prefixed [of "''HTTPS://cdn.example/x''" "Some ''/api/''"]
      getRequestUrl_absolute_or_prefixed [of "''//cdn.example/x''" "Some ''/api/''"]
      getRequestUrl_absolute_or_prefixed [of "''users''" "Some ''/api/''"]
      getRequestUrl_absolute_or_prefixed [of "''mailto:a@b''" None]
    by simp
qed

section \<open>Properties of configure\<close>

lemma install_cases:
  "install nc this =
     (if headers_instance (HttpClientConfiguration.defaults nc)
      then (Inl (JSError ''Default headers must be a plain object.''), this)
      else (Inr (),
            this\<lparr> HttpClient.baseUrl := HttpClientConfiguration.baseUrl nc,
                  HttpClient.defaults := HttpClientConfiguration.defaults nc,
                  HttpClient.interceptors :=
                    (case HttpClientConfiguration.interceptors nc of None \<Rightarrow> [] | Some is \<Rightarrow> is),
                  isConfigured := True \<rparr>))"
  by (simp add: install_def Let_def)

lemma typeof_object_iff: "typeof config = ''object'' \<longleftrightarrow> config = ArgNull \<or> plain_options_object config"
  by (cases config) simp_all

lemma typeof_function_iff: "typeof config = ''function'' \<longleftrightarrow> callback_function config"
  by (cases config) simp_all

lemma normalizeConfig_fails_iff:
  "isl (fst (normalizeConfig config this)) \<longleftrightarrow>
     (typeof config \<noteq> ''object'' \<and> typeof config \<noteq> ''function'') \<or> callback_throws config this"
  by (cases config) (auto simp: normalizeConfig_def Let_def split: sum.splits prod.splits option.splits)

text \<open>
  C8, as stated: \<^verbatim>\<open>configure\<close> fails exactly when its argument is neither a plain
  object of default options nor a callback, or the resulting default headers are a
  \<^verbatim>\<open>Headers\<close> instance. It does not hold: \<^verbatim>\<open>typeof null\<close> is \<^verbatim>\<open>'object'\<close>, so
  \<^verbatim>\<open>configure(null)\<close> is accepted and leaves the defaults \<^verbatim>\<open>null\<close>.
\<close>

theorem configure_accepts_null:
  "failure_specified ArgNull initial_client \<and> \<not> isl (fst (configure ArgNull initial_client))"
  by (simp add: failure_specified_def configure_def normalizeConfig_def install_cases
      headers_instance_def)

text \<open>
  C8, amended: \<^verbatim>\<open>configure\<close> fails exactly when the \<^verbatim>\<open>typeof\<close> of its argument is
  neither \<^verbatim>\<open>'object'\<close> (which \<^verbatim>\<open>null\<close> has too) nor \<^verbatim>\<open>'function'\<close>, or the
  callback itself throws, or the resulting configuration has defaults whose headers
  are a \<^verbatim>\<open>Headers\<close> instance.
\<close>

theorem configure_fails_iff:
  "isl (fst (configure config this)) \<longleftrightarrow>
     (typeof config \<noteq> ''object'' \<and> typeof config \<noteq> ''function'')
     \<or> callback_throws config this
     \<or> resulting_headers_instance config this"
proof (cases "fst (normalizeConfig config this)")
  case (Inl e)
  then have "isl (fst (normalizeConfig config this))" by simp
  moreover from Inl have "isl (fst (configure config this))"
    by (cases "normalizeConfig config this") (simp add: configure_def)
  ultimately show ?thesis
    using normalizeConfig_fails_iff by blast
next
  case (Inr nc)
  then have n: "\<not> isl (fst (normalizeConfig config this))" by simp
  from Inr have "isl (fst (configure config this))
      \<longleftrightarrow> headers_instance (HttpClientConfiguration.defaults nc)"
    by (cases "normalizeConfig config this") (simp add: configure_def install_cases)
  with n Inr normalizeConfig_fails_iff [of config this] show ?thesis
    by (auto simp: resulting_headers_instance_def)
qed

theorem configure_fails_iff_witness:
  "isl (fst (configure (ArgString ''/api/'') initial_client))
   \<and> \<not> isl (fst (configure ArgNull initial_client))
   \<and> \<not> isl (fst (configure (ArgObject json_defaults) initial_client))
   \<and> isl (fst (configure (ArgObject instance_defaults) initial_client))
   \<and> isl (fst (configure (ArgFunction throwing_callback) initial_client))"
  using configure_fails_iff [of "ArgString ''/api/''" initial_client]
    configure_fails_iff [of ArgNull initial_client]
    configure_fails_iff [of "ArgObject json_defaults" initial_client]
    configure_fails_iff [of "ArgObject instance_defaults" initial_client]
    configure_fails_iff [of "ArgFunction throwing_callback" initial_client]
  by (simp add: resulting_headers_instance_def normalizeConfig_def headers_instance_def
      json_defaults_def instance_defaults_def empty_init_def throwing_callback_def)

text \<open>
  C9, as stated: after \<^verbatim>\<open>configure\<close> with a plain object of default options the base
  URL of the client is the empty string. It does not hold: the wrapper
  \<^verbatim>\<open>{ defaults: config }\<close> has no \<^verbatim>\<open>baseUrl\<close>, so the client's becomes
  \<^verbatim>\<open>undefined\<close>.
\<close>

theorem configure_object_base_unset:
  "HttpClient.baseUrl (snd (configure (ArgObject json_defaults) initial_client)) \<noteq> Some []"
  by (simp add: configure_def normalizeConfig_def install_cases headers_instance_def
      json_defaults_def empty_init_def)

text \<open>
  C9, amended: when \<^verbatim>\<open>configure\<close> is called with a plain object of default options
  whose headers are not a \<^verbatim>\<open>Headers\<close> instance, the call succeeds and afterwards the
  base URL of the client is unset (\<^verbatim>\<open>undefined\<close>, which URL resolution treats as the
  empty string), its defaults are the supplied object, its list of interceptors is
  empty and it is marked configured.
\<close>

theorem configure_object:
  "\<not> headers_instance (Some d) \<Longrightarrow>
     configure (ArgObject d) this =
       (Inr (), this\<lparr> HttpClient.baseUrl := None, HttpClient.defaults := Some d,
                       HttpClient.interceptors := [], isConfigured := True \<rparr>)
     \<and> getRequestUrl (HttpClient.baseUrl (snd (configure (ArgObject d) this))) target
         = getRequestUrl (Some []) target"
  by (simp add: configure_def normalizeConfig_def install_cases getRequestUrl_def or_empty_def)

theorem configure_object_witness:
  "\<not> headers_instance (Some json_defaults)
   \<and> configure (ArgObject json_defaults) failing_client =
       (Inr (), failing_client\<lparr> HttpClient.baseUrl := None, HttpClient.defaults := Some json_defaults,
                       HttpClient.interceptors := [], isConfigured := True \<rparr>)
   \<and> getRequestUrl (HttpClient.baseUrl (snd (configure (ArgObject json_defaults) failing_client)))
        ''users'' = getRequestUrl (Some []) ''users''"
proof -
  have h: "\<not> headers_instance (Some json_defaults)"
    by (simp add: headers_instance_def json_defaults_def empty_init_def)
  from configure_object [OF h, of failing_client "''users''"] h show ?thesis by blast
qed

text \<open>
  C10. When \<^verbatim>\<open>configure\<close> throws because its argument is neither an object nor a
  function, or because a plain object argument carries default headers that are a
  \<^verbatim>\<open>Headers\<close> instance, the base URL, the defaults, the interceptors and the
  configured flag of the client keep the values they had before the call.
\<close>

theorem configure_throw_keeps_state:
  "(typeof config \<noteq> ''object'' \<and> typeof config \<noteq> ''function'')
     \<or> (plain_options_object config \<and> headers_instance (as_defaults config)) \<Longrightarrow>
   isl (fst (configure config this))
   \<and> HttpClient.baseUrl (snd (configure config this)) = HttpClient.baseUrl this
   \<and> HttpClient.defaults (snd (configure config this)) = HttpClient.defaults this
   \<and> HttpClient.interceptors (snd (configure config this)) = HttpClient.interceptors this
   \<and> isConfigured (snd (configure config this)) = isConfigured this
   \<and> snd (configure config this) = this"
  by (cases config) (auto simp: configure_def normalizeConfig_def install_cases)

theorem configure_throw_keeps_state_witness:
  "typeof (ArgString ''/api/'') \<noteq> ''object'' \<and> typeof (ArgString ''/api/'') \<noteq> ''function''
   \<and> isl (fst (configure (ArgString ''/api/'') failing_client))
   \<and> snd (configure (ArgString ''/api/'') failing_client) = failing_client
   \<and> plain_options_object (ArgObject instance_defaults)
   \<and> headers_instance (as_defaults (ArgObject instance_defaults))
   \<and> isl (fst (configure (ArgObject instance_defaults) failing_client))
   \<and> snd (configure (ArgObject instance_defaults) failing_client) = failing_client"
proof -
  have a: "typeof (ArgString ''/api/'') \<noteq> ''object'' \<and> typeof (ArgString ''/api/'') \<noteq> ''function''"
    by simp
  have b: "plain_options_object (ArgObject instance_defaults)
      \<and> headers_instance (as_defaults (ArgObject instance_defaults))"
    by (simp add: headers_instance_def instance_defaults_def empty_init_def)
  from configure_throw_keeps_state [of "ArgString ''/api/''" failing_client]
    configure_throw_keeps_state [of "ArgObject instance_defaults" failing_client] a b
  show ?thesis by simp
qed

section \<open>Properties of the interceptor chain\<close>

lemma chain_step_fulfilled:
  "chain_step sn en args (Fulfilled v, log) i =
     (case property i sn of Some h \<Rightarrow> (h v args, log @ [Invoke sn i]) | None \<Rightarrow> (Fulfilled v, log))"
  by (simp add: chain_step_def Let_def call_handler_def identity_def split: option.split)

lemma chain_step_rejected:
  "chain_step sn en args (Rejected r, log) i =
     (case property i en of Some h \<Rightarrow> (h r args, log @ [Invoke en i]) | None \<Rightarrow> (Rejected r, log))"
  by (simp add: chain_step_def Let_def call_handler_def thrower_def split: option.split)

lemma chain_step_pending:
  "chain_step sn en args (Pending, log) i = (Pending, log)"
  by (simp add: chain_step_def Let_def)

lemma applyInterceptors_Nil: "applyInterceptors p [] sn en args log = (p, log)"
  by (simp add: applyInterceptors_def)

lemma applyInterceptors_Cons:
  "applyInterceptors p (i # is) sn en args log =
     (let (q, log1) = chain_step sn en args (p, log) i in applyInterceptors q is sn en args log1)"
  by (simp add: applyInterceptors_def split: prod.split)

lemma applyInterceptors_append:
  "applyInterceptors p (xs @ ys) sn en args log =
     (let (q, log1) = applyInterceptors p xs sn en args log in applyInterceptors q ys sn en args log1)"
  by (simp add: applyInterceptors_def split: prod.split)

lemma applyInterceptors_pending: "applyInterceptors Pending is sn en args log = (Pending, log)"
  by (induction "is") (simp_all add: applyInterceptors_Nil applyInterceptors_Cons chain_step_pending)




lemma chain_step_log:
  "snd (chain_step sn en args (p, log) i) = log \<or>
   snd (chain_step sn en args (p, log) i) = log @ [Invoke sn i] \<or>
   snd (chain_step sn en args (p, log) i) = log @ [Invoke en i]"
  by (cases p)
    (auto simp: chain_step_fulfilled chain_step_rejected chain_step_pending split: option.split)



lemma applyInterceptors_events:
  "set (snd (applyInterceptors p is sn en args log))
     \<subseteq> set log \<union> {e. \<exists>i \<in> set is. e = Invoke sn i \<or> e = Invoke en i}"
proof (induction "is" arbitrary: p log)
  case Nil
  then show ?case by (simp add: applyInterceptors_Nil)
next
  case (Cons i "is")
  obtain q log1 where step: "chain_step sn en args (p, log) i = (q, log1)"
    by (cases "chain_step sn en args (p, log) i")
  from step chain_step_log [of sn en args p log i]
  have "set log1 \<subseteq> set log \<union> {Invoke sn i, Invoke en i}"
    by auto
  with Cons.IH [of q log1] step show ?case
    by (auto simp: applyInterceptors_Cons)
qed

text \<open>
  C5. For every interceptor of a chain, wherever it stands: when the promise that
  reaches it is fulfilled and its success handler (\<^verbatim>\<open>request\<close> or \<^verbatim>\<open>response\<close>) is
  missing, the value passes through unchanged; when the promise is rejected and its
  failure handler (\<^verbatim>\<open>requestError\<close> or \<^verbatim>\<open>responseError\<close>) is missing, the reason
  is thrown again unchanged. No handler is called in either case.
\<close>

theorem missing_handlers_are_transparent:
  "(processRequest p xs log = (Fulfilled v, log1) \<and> request i = None \<longrightarrow>
      processRequest p (xs @ [i]) log = (Fulfilled v, log1)) \<and>
   (processRequest p xs log = (Rejected r, log1) \<and> requestError i = None \<longrightarrow>
      processRequest p (xs @ [i]) log = (Rejected r, log1)) \<and>
   (processResponse p xs req log = (Fulfilled v, log1) \<and> response i = None \<longrightarrow>
      processResponse p (xs @ [i]) req log = (Fulfilled v, log1)) \<and>
   (processResponse p xs req log = (Rejected r, log1) \<and> responseError i = None \<longrightarrow>
      processResponse p (xs @ [i]) req log = (Rejected r, log1))"
  by (simp add: processRequest_def processResponse_def applyInterceptors_append
      applyInterceptors_Cons applyInterceptors_Nil chain_step_fulfilled chain_step_rejected
      property_def)

lemma passing_request:
  "processRequest (Fulfilled (JSString ''a'')) [passing] [] =
     (Fulfilled (JSString ''a''), [Invoke ''request'' passing])"
  "processRequest (Rejected (JSString ''a'')) [passing] [] =
     (Rejected (JSString ''a''), [Invoke ''requestError'' passing])"
  "processResponse (Fulfilled (JSString ''a'')) [passing] JSNull [] =
     (Fulfilled (JSString ''a''), [Invoke ''response'' passing])"
  "processResponse (Rejected (JSString ''a'')) [passing] JSNull [] =
     (Rejected (JSString ''a''), [Invoke ''responseError'' passing])"
  by (simp_all add: processRequest_def processResponse_def applyInterceptors_Cons
      applyInterceptors_Nil chain_step_fulfilled chain_step_rejected property_def passing_def)

theorem missing_handlers_are_transparent_witness:
  "request silent = None \<and> requestError silent = None \<and> response silent = None
   \<and> responseError silent = None
   \<and> processRequest (Fulfilled (JSString ''a'')) ([passing] @ [silent]) [] =
       (Fulfilled (JSString ''a''), [Invoke ''request'' passing])
   \<and> processRequest (Rejected (JSString ''a'')) ([passing] @ [silent]) [] =
       (Rejected (JSString ''a''), [Invoke ''requestError'' passing])
   \<and> processResponse (Fulfilled (JSString ''a'')) ([passing] @ [silent]) JSNull [] =
       (Fulfilled (JSString ''a''), [Invoke ''response'' passing])
   \<and> processResponse (Rejected (JSString ''a'')) ([passing] @ [silent]) JSNull [] =
       (Rejected (JSString ''a''), [Invoke ''responseError'' passing])"
proof -
  have s: "request silent = None \<and> requestError silent = None \<and> response silent = None
      \<and> responseError silent = None"
    by (simp add: silent_def)
  from s passing_request
    missing_handlers_are_transparent [where p = "Fulfilled (JSString ''a'')" and xs = "[passing]"
      and log = "[]" and v = "JSString ''a''" and ?log1.0 = "[Invoke ''request'' passing]"
      and i = silent]
    missing_handlers_are_transparent [where p = "Rejected (JSString ''a'')" and xs = "[passing]"
      and log = "[]" and r = "JSString ''a''" and ?log1.0 = "[Invoke ''requestError'' passing]"
      and i = silent]
    missing_handlers_are_transparent [where p = "Fulfilled (JSString ''a'')" and xs = "[passing]"
      and log = "[]" and v = "JSString ''a''" and ?log1.0 = "[Invoke ''response'' passing]"
      and i = silent and req = JSNull]
    missing_handlers_are_transparent [where p = "Rejected (JSString ''a'')" and xs = "[passing]"
      and log = "[]" and r = "JSString ''a''" and ?log1.0 = "[Invoke ''responseError'' passing]"
      and i = silent and req = JSNull]
  show ?thesis
    by simp
qed

lemma withInterceptor_appends:
  "withInterceptor cfg i = Inr cfg' \<Longrightarrow>
     \<exists>is. HttpClientConfiguration.interceptors cfg = Some is
       \<and> HttpClientConfiguration.interceptors cfg' = Some (is @ [i])"
  by (auto simp: withInterceptor_def split: option.splits)

lemma useStandardConfiguration_appends:
  "useStandardConfiguration cfg = Inr cfg' \<Longrightarrow>
     \<exists>is. HttpClientConfiguration.interceptors cfg = Some is
       \<and> HttpClientConfiguration.interceptors cfg' = Some (is @ [response_rejectOnError])"
  by (auto simp: useStandardConfiguration_def rejectErrorResponses_def Let_def
      split: option.splits dest!: withInterceptor_appends)

text \<open>
  C4. The interceptor that the standard preset installs (\<^verbatim>\<open>rejectErrorResponses\<close>, also
  through \<^verbatim>\<open>useStandardConfiguration\<close>) is \<^verbatim>\<open>{ response: rejectOnError }\<close>, appended
  to the list. It turns every response whose \<^verbatim>\<open>ok\<close> flag is false into a rejection
  carrying that very response, and returns every response whose flag is true unchanged.
\<close>

theorem rejectOnError_rejects_failures:
  "(rejectErrorResponses cfg = Inr cfg' \<or> useStandardConfiguration cfg = Inr cfg' \<longrightarrow>
      (\<exists>is. HttpClientConfiguration.interceptors cfg = Some is
         \<and> HttpClientConfiguration.interceptors cfg' = Some (is @ [response_rejectOnError]))) \<and>
   property response_rejectOnError ''response'' = Some rejectOnError \<and>
   (\<not> ok r \<longrightarrow>
      rejectOnError (JSResponse r) args = Rejected (JSResponse r) \<and>
      processResponse (Fulfilled (JSResponse r)) [response_rejectOnError] req log =
        (Rejected (JSResponse r), log @ [Invoke ''response'' response_rejectOnError])) \<and>
   (ok r \<longrightarrow>
      rejectOnError (JSResponse r) args = Fulfilled (JSResponse r) \<and>
      processResponse (Fulfilled (JSResponse r)) [response_rejectOnError] req log =
        (Fulfilled (JSResponse r), log @ [Invoke ''response'' response_rejectOnError]))"
proof -
  have p: "property response_rejectOnError ''response'' = Some rejectOnError"
    by (simp add: property_def response_rejectOnError_def)
  have a: "rejectErrorResponses cfg = Inr cfg' \<or> useStandardConfiguration cfg = Inr cfg' \<longrightarrow>
      (\<exists>is. HttpClientConfiguration.interceptors cfg = Some is
         \<and> HttpClientConfiguration.interceptors cfg' = Some (is @ [response_rejectOnError]))"
    using withInterceptor_appends [of cfg response_rejectOnError cfg']
      useStandardConfiguration_appends [of cfg cfg']
    by (auto simp: rejectErrorResponses_def)
  from p have c: "processResponse (Fulfilled (JSResponse r)) [response_rejectOnError] req log =
      (rejectOnError (JSResponse r) [req], log @ [Invoke ''response'' response_rejectOnError])"
    by (simp add: processResponse_def applyInterceptors_Cons applyInterceptors_Nil
        chain_step_fulfilled)
  from p a c show ?thesis by simp
qed

theorem rejectOnError_rejects_failures_witness:
  "rejectErrorResponses new_HttpClientConfiguration
     = Inr (new_HttpClientConfiguration\<lparr> HttpClientConfiguration.interceptors :=
              Some [response_rejectOnError] \<rparr>)
   \<and> \<not> ok not_found
   \<and> processResponse (Fulfilled (JSResponse not_found)) [response_rejectOnError] JSNull [] =
        (Rejected (JSResponse not_found), [Invoke ''response'' response_rejectOnError])
   \<and> ok found
   \<and> processResponse (Fulfilled (JSResponse found)) [response_rejectOnError] JSNull [] =
        (Fulfilled (JSResponse found), [Invoke ''response'' response_rejectOnError])"
proof -
  have a: "rejectErrorResponses new_HttpClientConfiguration
     = Inr (new_HttpClientConfiguration\<lparr> HttpClientConfiguration.interceptors :=
              Some [response_rejectOnError] \<rparr>)"
    by (simp add: rejectErrorResponses_def withInterceptor_def new_HttpClientConfiguration_def)
  have b: "\<not> ok not_found" "ok found"
    by (simp_all add: not_found_def found_def)
  from a b
    rejectOnError_rejects_failures [where r = not_found and req = JSNull and log = "[]"]
    rejectOnError_rejects_failures [where r = found and req = JSNull and log = "[]"]
  show ?thesis by simp
qed



section \<open>Properties of fetch\<close>

lemma applyInterceptors_extends:
  "\<exists>ext. snd (applyInterceptors p is sn en args log) = log @ ext
     \<and> (\<forall>e \<in> set ext. e \<noteq> TrackRequestStart \<and> e \<noteq> TrackRequestEnd)"
proof (induction "is" arbitrary: p log)
  case Nil
  then show ?case by (simp add: applyInterceptors_Nil)
next
  case (Cons i "is")
  obtain q log1 where step: "chain_step sn en args (p, log) i = (q, log1)"
    by (cases "chain_step sn en args (p, log) i")
  from step chain_step_log [of sn en args p log i]
  obtain ext1 where e1: "log1 = log @ ext1"
    "\<forall>e \<in> set ext1. e \<noteq> TrackRequestStart \<and> e \<noteq> TrackRequestEnd"
    by auto
  from Cons.IH [of q log1] obtain ext where
    e: "snd (applyInterceptors q is sn en args log1) = log1 @ ext"
      "\<forall>e \<in> set ext. e \<noteq> TrackRequestStart \<and> e \<noteq> TrackRequestEnd"
    by blast
  from e e1 step have "snd (applyInterceptors p (i # is) sn en args log) = log @ (ext1 @ ext)"
    by (simp add: applyInterceptors_Cons)
  moreover from e e1 have "\<forall>e \<in> set (ext1 @ ext). e \<noteq> TrackRequestStart \<and> e \<noteq> TrackRequestEnd"
    by auto
  ultimately show ?case by blast
qed

lemma dispatch_extends:
  "\<exists>ext. snd (dispatch transport this req result log) = log @ ext
     \<and> (\<forall>e \<in> set ext. e \<noteq> TrackRequestStart \<and> e \<noteq> TrackRequestEnd)"
proof -
  have resp: "\<exists>ext. snd (promise_then q
            (\<lambda>req0. processResponse resp (HttpClient.interceptors this) req0) thrower (log @ pre))
          = log @ ext \<and> (\<forall>e \<in> set ext. e \<noteq> TrackRequestStart \<and> e \<noteq> TrackRequestEnd)"
    if "\<forall>e \<in> set pre. e \<noteq> TrackRequestStart \<and> e \<noteq> TrackRequestEnd" for q resp pre
  proof (cases q)
    case (Fulfilled v)
    from applyInterceptors_extends
      [of resp "HttpClient.interceptors this" "''response''" "''responseError''" "[v]" "log @ pre"]
    obtain ext where "snd (processResponse resp (HttpClient.interceptors this) v (log @ pre))
        = log @ (pre @ ext)" "\<forall>e \<in> set ext. e \<noteq> TrackRequestStart \<and> e \<noteq> TrackRequestEnd"
      by (auto simp: processResponse_def)
    with that Fulfilled show ?thesis
      by (intro exI [of _ "pre @ ext"]) auto
  next
    case (Rejected r)
    with that show ?thesis by (intro exI [of _ pre]) (simp add: thrower_def)
  next
    case Pending
    with that show ?thesis by (intro exI [of _ pre]) simp
  qed
  show ?thesis
  proof (cases result)
    case (JSResponse r)
    with resp [of "[]"] show ?thesis by (simp add: dispatch_def)
  next
    case (JSRequest r)
    with resp [of "[Transport r]" "Fulfilled (JSRequest r)" "transport r"] show ?thesis
      by (simp add: dispatch_def Let_def)
  qed (simp_all add: dispatch_def)
qed

lemma pipeline_extends:
  "\<exists>ext. snd (pipeline transport input init this log0) = log0 @ BuildRequest # ext
     \<and> (\<forall>e \<in> set ext. e \<noteq> TrackRequestStart \<and> e \<noteq> TrackRequestEnd)"
proof -
  obtain req where b: "promise_then (Fulfilled JSUndefined) (build_promise this input init) thrower log0
      = (req, log0 @ [BuildRequest])"
    by (simp add: build_promise_def)
  obtain result log2 where pr: "processRequest req (HttpClient.interceptors this) (log0 @ [BuildRequest])
      = (result, log2)"
    by (cases "processRequest req (HttpClient.interceptors this) (log0 @ [BuildRequest])")
  from applyInterceptors_extends
    [of req "HttpClient.interceptors this" "''request''" "''requestError''" "[]" "log0 @ [BuildRequest]"] pr
  obtain ext1 where e1: "log2 = log0 @ [BuildRequest] @ ext1"
    "\<forall>e \<in> set ext1. e \<noteq> TrackRequestStart \<and> e \<noteq> TrackRequestEnd"
    by (auto simp: processRequest_def)
  have "\<exists>ext. snd (promise_then result (dispatch transport this req) thrower log2) = log2 @ ext
     \<and> (\<forall>e \<in> set ext. e \<noteq> TrackRequestStart \<and> e \<noteq> TrackRequestEnd)"
    using dispatch_extends [of transport this req _ log2]
    by (cases result) (simp_all add: thrower_def)
  then obtain ext2 where e2: "snd (promise_then result (dispatch transport this req) thrower log2) = log2 @ ext2"
    "\<forall>e \<in> set ext2. e \<noteq> TrackRequestStart \<and> e \<noteq> TrackRequestEnd"
    by blast
  from b pr have "pipeline transport input init this log0
      = promise_then result (dispatch transport this req) thrower log2"
    by (simp add: pipeline_def)
  with e1 e2 have "snd (pipeline transport input init this log0) = log0 @ BuildRequest # (ext1 @ ext2)"
    by simp
  moreover from e1 e2 have "\<forall>e \<in> set (ext1 @ ext2). e \<noteq> TrackRequestStart \<and> e \<noteq> TrackRequestEnd"
    by auto
  ultimately show ?thesis by blast
qed

lemma trackRequestEndWith_settled:
  "promise \<noteq> Pending \<Longrightarrow>
     trackRequestEndWith promise (log, this) = (promise, log @ [TrackRequestEnd], trackRequestEnd this)"
  by (cases promise) (simp_all add: trackRequestEndWith_def handle_def)

lemma trackRequestEndWith_pending:
  "trackRequestEndWith Pending (log, this) = (Pending, log, this)"
  by (simp add: trackRequestEndWith_def)

lemma fetch_unfold:
  "fetch transport input init this0 =
     trackRequestEndWith (fst (pipeline transport input init (trackRequestStart this0) [TrackRequestStart]))
       (snd (pipeline transport input init (trackRequestStart this0) [TrackRequestStart]),
        trackRequestStart this0)"
  by (simp add: fetch_def Let_def split: prod.split)

lemma track_end_start:
  "trackRequestEnd (trackRequestStart this) = this\<lparr> isRequesting := (activeRequestCount this \<noteq> 0) \<rparr>"
  by (simp add: trackRequestEnd_def trackRequestStart_def)

lemma count_list_append: "count_list (xs @ ys) e = count_list xs e + count_list ys e"
  by (induction xs) simp_all

lemma count_list_absent: "e \<notin> set xs \<Longrightarrow> count_list xs e = 0"
  by (induction xs) auto

lemma run_events_append: "run_events (xs @ ys) this = run_events ys (run_events xs this)"
  by (simp add: run_events_def)

lemma run_events_quiet:
  "\<forall>e \<in> set ext. e \<noteq> TrackRequestStart \<and> e \<noteq> TrackRequestEnd \<Longrightarrow> run_events ext this = this"
proof (induction ext)
  case Nil
  then show ?case by (simp add: run_events_def)
next
  case (Cons e ext)
  then have "apply_event e this = this" by (cases e) simp_all
  with Cons show ?case by (simp add: run_events_def)
qed

lemma run_events_count:
  "activeRequestCount (run_events log this) =
     activeRequestCount this + int (count_list log TrackRequestStart)
       - int (count_list log TrackRequestEnd)"
proof (induction log arbitrary: this)
  case Nil
  then show ?case by (simp add: run_events_def)
next
  case (Cons e log)
  have "run_events (e # log) this = run_events log (apply_event e this)"
    by (simp add: run_events_def)
  with Cons [of "apply_event e this"] show ?case
    by (cases e) (simp_all add: trackRequestStart_def trackRequestEnd_def)
qed

lemma shuffles_count:
  "zs \<in> shuffles xs ys \<Longrightarrow> count_list zs e = count_list xs e + count_list ys e"
  by (induction xs ys arbitrary: zs rule: shuffles.induct) auto

lemma interleavings_count:
  "s \<in> interleavings ls \<Longrightarrow> count_list s e = sum_list (map (\<lambda>l. count_list l e) ls)"
proof (induction ls arbitrary: s)
  case Nil
  then show ?case by simp
next
  case (Cons l ls)
  then obtain s' where "s' \<in> interleavings ls" "s \<in> shuffles l s'" by auto
  with Cons.IH [of s'] show ?case by (simp add: shuffles_count)
qed

lemma fetch_shape:
  obtains ext where
    "snd (pipeline transport input init (trackRequestStart this0) [TrackRequestStart])
       = TrackRequestStart # BuildRequest # ext"
    "\<forall>e \<in> set ext. e \<noteq> TrackRequestStart \<and> e \<noteq> TrackRequestEnd"
  using pipeline_extends [of transport input init "trackRequestStart this0" "[TrackRequestStart]"]
  by auto

lemma fetch_settled:
  assumes "fst (fetch transport input init this0) \<noteq> Pending"
  obtains ext where
    "fst (snd (fetch transport input init this0))
       = TrackRequestStart # BuildRequest # ext @ [TrackRequestEnd]"
    "\<forall>e \<in> set ext. e \<noteq> TrackRequestStart \<and> e \<noteq> TrackRequestEnd"
    "snd (snd (fetch transport input init this0)) = trackRequestEnd (trackRequestStart this0)"
proof -
  obtain ext where e:
    "snd (pipeline transport input init (trackRequestStart this0) [TrackRequestStart])
       = TrackRequestStart # BuildRequest # ext"
    "\<forall>e \<in> set ext. e \<noteq> TrackRequestStart \<and> e \<noteq> TrackRequestEnd"
    by (rule fetch_shape)
  from assms have p: "fst (pipeline transport input init (trackRequestStart this0) [TrackRequestStart]) \<noteq> Pending"
    by (simp add: fetch_unfold trackRequestEndWith_def)
  from e p have
    "fst (snd (fetch transport input init this0))
       = TrackRequestStart # BuildRequest # ext @ [TrackRequestEnd]"
    "snd (snd (fetch transport input init this0)) = trackRequestEnd (trackRequestStart this0)"
    by (simp_all add: fetch_unfold trackRequestEndWith_settled)
  with e(2) that show thesis by blast
qed

lemma fetch_pending:
  assumes "fst (fetch transport input init this0) = Pending"
  obtains ext where
    "fst (snd (fetch transport input init this0)) = TrackRequestStart # BuildRequest # ext"
    "\<forall>e \<in> set ext. e \<noteq> TrackRequestStart \<and> e \<noteq> TrackRequestEnd"
    "snd (snd (fetch transport input init this0)) = trackRequestStart this0"
proof -
  obtain ext where e:
    "snd (pipeline transport input init (trackRequestStart this0) [TrackRequestStart])
       = TrackRequestStart # BuildRequest # ext"
    "\<forall>e \<in> set ext. e \<noteq> TrackRequestStart \<and> e \<noteq> TrackRequestEnd"
    by (rule fetch_shape)
  from assms have p: "fst (pipeline transport input init (trackRequestStart this0) [TrackRequestStart]) = Pending"
    by (simp add: fetch_unfold trackRequestEndWith_def)
  from e p have
    "fst (snd (fetch transport input init this0)) = TrackRequestStart # BuildRequest # ext"
    "snd (snd (fetch transport input init this0)) = trackRequestStart this0"
    by (simp_all add: fetch_unfold trackRequestEndWith_pending)
  with e(2) that show thesis by blast
qed

lemma fetch_settled_counts:
  assumes "fst (fetch transport input init this0) \<noteq> Pending"
  shows "count_list (fst (snd (fetch transport input init this0))) TrackRequestStart = 1"
    and "count_list (fst (snd (fetch transport input init this0))) TrackRequestEnd = 1"
proof -
  from assms obtain ext where e:
    "fst (snd (fetch transport input init this0))
       = TrackRequestStart # BuildRequest # ext @ [TrackRequestEnd]"
    "\<forall>e \<in> set ext. e \<noteq> TrackRequestStart \<and> e \<noteq> TrackRequestEnd"
    by (rule fetch_settled)
  from e(2) have "count_list ext TrackRequestStart = 0" "count_list ext TrackRequestEnd = 0"
    by (auto intro: count_list_absent)
  with e(1) show "count_list (fst (snd (fetch transport input init this0))) TrackRequestStart = 1"
    and "count_list (fst (snd (fetch transport input init this0))) TrackRequestEnd = 1"
    by (simp_all add: count_list_append)
qed

lemmas build_eval = buildRequest_def initial_request_def parseHeaderValues_def new_Request_def
  new_Headers_def Headers_of_object_def Headers_get_def Headers_has_def Headers_set_def
  Headers_append_def Object_assign_def Object_assign_opt_def over_def truthy_def or_null_def
  lower_def toLower_def getRequestUrl_def absoluteUrlRegexp_test_def isLetter_def startsWith_def
  or_empty_def Let_def

lemma build_users:
  "buildRequest (trackRequestStart json_client) (InputUrl ''users'') None = Inr users_request"
  by (simp add: build_eval json_client_def json_defaults_def trackRequestStart_def
      initial_client_def empty_init_def users_request_def)

lemma json_client_interceptors:
  "HttpClient.interceptors (trackRequestStart json_client) = []"
  by (simp add: json_client_def trackRequestStart_def initial_client_def)

lemma pipeline_users:
  "pipeline answering (InputUrl ''users'') None (trackRequestStart json_client) [TrackRequestStart]
     = (Fulfilled (JSResponse found), [TrackRequestStart, BuildRequest, Transport users_request])"
  by (simp add: pipeline_def build_promise_def build_users processRequest_def processResponse_def
      applyInterceptors_Nil dispatch_def answering_def json_client_interceptors)

lemma json_client_idle:
  "json_client\<lparr> isRequesting := (activeRequestCount json_client \<noteq> 0) \<rparr> = json_client"
  by (simp add: json_client_def initial_client_def)

lemma fetch_users:
  "fetch answering (InputUrl ''users'') None json_client
     = (Fulfilled (JSResponse found),
        [TrackRequestStart, BuildRequest, Transport users_request, TrackRequestEnd],
        json_client)"
  by (simp add: fetch_unfold pipeline_users trackRequestEndWith_settled track_end_start
      json_client_idle)

lemma pipeline_hanging:
  "pipeline hanging (InputUrl ''users'') None (trackRequestStart json_client) [TrackRequestStart]
     = (Pending, [TrackRequestStart, BuildRequest, Transport users_request])"
  by (simp add: pipeline_def build_promise_def build_users processRequest_def processResponse_def
      applyInterceptors_Nil applyInterceptors_pending dispatch_def hanging_def
      json_client_interceptors)

lemma fetch_hanging:
  "fetch hanging (InputUrl ''users'') None json_client
     = (Pending, [TrackRequestStart, BuildRequest, Transport users_request],
        trackRequestStart json_client)"
  by (simp add: fetch_unfold pipeline_hanging trackRequestEndWith_pending)

lemma fetch_state_is_run_events:
  "snd (snd (fetch transport input init this0))
     = run_events (fst (snd (fetch transport input init this0))) this0"
proof (cases "fst (fetch transport input init this0) = Pending")
  case True
  then obtain ext where e:
    "fst (snd (fetch transport input init this0)) = TrackRequestStart # BuildRequest # ext"
    "\<forall>e \<in> set ext. e \<noteq> TrackRequestStart \<and> e \<noteq> TrackRequestEnd"
    "snd (snd (fetch transport input init this0)) = trackRequestStart this0"
    by (rule fetch_pending)
  from e(2) have "run_events ext (trackRequestStart this0) = trackRequestStart this0"
    by (rule run_events_quiet)
  with e(1,3) show ?thesis by (simp add: run_events_def)
next
  case False
  then obtain ext where e:
    "fst (snd (fetch transport input init this0))
       = TrackRequestStart # BuildRequest # ext @ [TrackRequestEnd]"
    "\<forall>e \<in> set ext. e \<noteq> TrackRequestStart \<and> e \<noteq> TrackRequestEnd"
    "snd (snd (fetch transport input init this0)) = trackRequestEnd (trackRequestStart this0)"
    by (rule fetch_settled)
  from e(2) have "run_events ext (trackRequestStart this0) = trackRequestStart this0"
    by (rule run_events_quiet)
  then have "fold apply_event ext (trackRequestStart this0) = trackRequestStart this0"
    by (simp add: run_events_def)
  with e(1,3) show ?thesis by (simp add: run_events_def)
qed

lemma calls_net_zero:
  assumes "\<forall>c \<in> set calls. call_settles c"
    and "s \<in> interleavings (map call_log calls)"
  shows "activeRequestCount (run_events s this) = activeRequestCount this"
proof -
  have "sum_list (map (\<lambda>l. count_list l TrackRequestStart) (map call_log calls)) = length calls"
    using assms(1)
    by (induction calls) (auto simp: call_settles_def call_log_def fetch_settled_counts)
  moreover have "sum_list (map (\<lambda>l. count_list l TrackRequestEnd) (map call_log calls)) = length calls"
    using assms(1)
    by (induction calls) (auto simp: call_settles_def call_log_def fetch_settled_counts)
  ultimately have "count_list s TrackRequestStart = length calls"
    "count_list s TrackRequestEnd = length calls"
    using interleavings_count [OF assms(2)] by simp_all
  then show ?thesis by (simp add: run_events_count)
qed

text \<open>
  C7. For every call of \<^verbatim>\<open>fetch\<close>, the counter of active requests is incremented
  before the request is built, and decremented exactly once when the returned promise
  settles, fulfilled or rejected, so that it is back at its value from before the call;
  the promise returned is the very promise of the pipeline, its value or reason
  untouched. A promise that never settles leaves the counter incremented. For any
  number of calls in flight together, all of which settle, and however their events
  are interleaved, the counter ends where it started.
\<close>

theorem active_request_counter:
  "fst (fetch transport input init this0)
     = fst (pipeline transport input init (trackRequestStart this0) [TrackRequestStart]) \<and>
   (\<exists>rest. fst (snd (fetch transport input init this0)) = TrackRequestStart # BuildRequest # rest) \<and>
   snd (snd (fetch transport input init this0))
     = run_events (fst (snd (fetch transport input init this0))) this0 \<and>
   (fst (fetch transport input init this0) \<noteq> Pending \<longrightarrow>
      count_list (fst (snd (fetch transport input init this0))) TrackRequestEnd = 1 \<and>
      last (fst (snd (fetch transport input init this0))) = TrackRequestEnd \<and>
      activeRequestCount (snd (snd (fetch transport input init this0))) = activeRequestCount this0 \<and>
      isRequesting (snd (snd (fetch transport input init this0))) = (activeRequestCount this0 \<noteq> 0)) \<and>
   (fst (fetch transport input init this0) = Pending \<longrightarrow>
      count_list (fst (snd (fetch transport input init this0))) TrackRequestEnd = 0 \<and>
      activeRequestCount (snd (snd (fetch transport input init this0))) = activeRequestCount this0 + 1) \<and>
   ((\<forall>c \<in> set calls. call_settles c) \<and> s \<in> interleavings (map call_log calls) \<longrightarrow>
      activeRequestCount (run_events s this) = activeRequestCount this)"
proof (intro conjI impI)
  show "fst (fetch transport input init this0)
     = fst (pipeline transport input init (trackRequestStart this0) [TrackRequestStart])"
    by (simp add: fetch_unfold trackRequestEndWith_def)
  show "\<exists>rest. fst (snd (fetch transport input init this0)) = TrackRequestStart # BuildRequest # rest"
  proof (cases "fst (fetch transport input init this0) = Pending")
    case True
    then show ?thesis by (rule fetch_pending) blast
  next
    case False
    then show ?thesis by (rule fetch_settled) blast
  qed
  show "snd (snd (fetch transport input init this0))
     = run_events (fst (snd (fetch transport input init this0))) this0"
    by (rule fetch_state_is_run_events)
next
  assume a: "fst (fetch transport input init this0) \<noteq> Pending"
  then obtain ext where e:
    "fst (snd (fetch transport input init this0))
       = TrackRequestStart # BuildRequest # ext @ [TrackRequestEnd]"
    "\<forall>e \<in> set ext. e \<noteq> TrackRequestStart \<and> e \<noteq> TrackRequestEnd"
    "snd (snd (fetch transport input init this0)) = trackRequestEnd (trackRequestStart this0)"
    by (rule fetch_settled)
  from a show "count_list (fst (snd (fetch transport input init this0))) TrackRequestEnd = 1"
    by (rule fetch_settled_counts)
  from e(1) show "last (fst (snd (fetch transport input init this0))) = TrackRequestEnd"
    by simp
  from e(3) show "activeRequestCount (snd (snd (fetch transport input init this0)))
      = activeRequestCount this0"
    by (simp add: track_end_start)
  from e(3) show "isRequesting (snd (snd (fetch transport input init this0)))
      = (activeRequestCount this0 \<noteq> 0)"
    by (simp add: track_end_start)
next
  assume a: "fst (fetch transport input init this0) = Pending"
  then obtain ext where e:
    "fst (snd (fetch transport input init this0)) = TrackRequestStart # BuildRequest # ext"
    "\<forall>e \<in> set ext. e \<noteq> TrackRequestStart \<and> e \<noteq> TrackRequestEnd"
    "snd (snd (fetch transport input init this0)) = trackRequestStart this0"
    by (rule fetch_pending)
  from e(2) have "count_list ext TrackRequestEnd = 0"
    by (auto intro: count_list_absent)
  with e(1) show "count_list (fst (snd (fetch transport input init this0))) TrackRequestEnd = 0"
    by simp
  from e(3) show "activeRequestCount (snd (snd (fetch transport input init this0)))
      = activeRequestCount this0 + 1"
    by (simp add: trackRequestStart_def)
next
  assume "(\<forall>c \<in> set calls. call_settles c) \<and> s \<in> interleavings (map call_log calls)"
  then show "activeRequestCount (run_events s this) = activeRequestCount this"
    using calls_net_zero by blast
qed

lemma users_call:
  "call_settles (answering, InputUrl ''users'', None, json_client)"
  "call_log (answering, InputUrl ''users'', None, json_client)
     = [TrackRequestStart, BuildRequest, Transport users_request, TrackRequestEnd]"
  by (simp_all add: call_settles_def call_log_def fetch_users)

lemma users_interleaved:
  "[TrackRequestStart, BuildRequest, TrackRequestStart, Transport users_request, BuildRequest,
    TrackRequestEnd, Transport users_request, TrackRequestEnd]
   \<in> interleavings (map call_log [(answering, InputUrl ''users'', None, json_client),
        (answering, InputUrl ''users'', None, json_client)])"
  by (simp add: users_call Cons_in_shuffles_iff)

theorem active_request_counter_witness:
  "fst (fetch answering (InputUrl ''users'') None json_client) \<noteq> Pending
   \<and> count_list (fst (snd (fetch answering (InputUrl ''users'') None json_client))) TrackRequestEnd = 1
   \<and> activeRequestCount (snd (snd (fetch answering (InputUrl ''users'') None json_client)))
       = activeRequestCount json_client
   \<and> fst (fetch hanging (InputUrl ''users'') None json_client) = Pending
   \<and> activeRequestCount (snd (snd (fetch hanging (InputUrl ''users'') None json_client)))
       = activeRequestCount json_client + 1
   \<and> call_settles (answering, InputUrl ''users'', None, json_client)
   \<and> [TrackRequestStart, BuildRequest, TrackRequestStart, Transport users_request, BuildRequest,
       TrackRequestEnd, Transport users_request, TrackRequestEnd]
      \<in> interleavings (map call_log [(answering, InputUrl ''users'', None, json_client),
        (answering, InputUrl ''users'', None, json_client)])
   \<and> activeRequestCount (run_events
        [TrackRequestStart, BuildRequest, TrackRequestStart, Transport users_request, BuildRequest,
         TrackRequestEnd, Transport users_request, TrackRequestEnd] json_client)
       = activeRequestCount json_client"
proof -
  have a: "fst (fetch answering (InputUrl ''users'') None json_client) \<noteq> Pending"
    by (simp add: fetch_users)
  have b: "fst (fetch hanging (InputUrl ''users'') None json_client) = Pending"
    by (simp add: fetch_hanging)
  have c: "\<forall>c \<in> set [(answering, InputUrl ''users'', None, json_client),
         (answering, InputUrl ''users'', None, json_client)]. call_settles c"
    by (simp add: users_call)
  note d = users_interleaved users_call(1)
  from a b c d
    active_request_counter [where transport = answering and input = "InputUrl ''users''"
      and init = None and ?this0.0 = json_client
      and calls = "[(answering, InputUrl ''users'', None, json_client),
         (answering, InputUrl ''users'', None, json_client)]"
      and s = "[TrackRequestStart, BuildRequest, TrackRequestStart, Transport users_request,
         BuildRequest, TrackRequestEnd, Transport users_request, TrackRequestEnd]"
      and this = json_client]
    active_request_counter [where transport = hanging and input = "InputUrl ''users''"
      and init = None and ?this0.0 = json_client and calls = "[]" and s = "[]" and this = json_client]
  show ?thesis by blast
qed

lemma dispatch_request:
  "dispatch transport this req (JSRequest r) log =
     processResponse (transport r) (HttpClient.interceptors this) (JSRequest r) (log @ [Transport r])"
  by (simp add: dispatch_def Let_def)

lemma dispatch_response_built:
  "dispatch transport this (Fulfilled built) (JSResponse r) log =
     processResponse (Fulfilled (JSResponse r)) (HttpClient.interceptors this) built log"
  by (simp add: dispatch_def)

lemma dispatch_response_unbuilt:
  "dispatch transport this (Rejected e) (JSResponse r) log = (Rejected e, log)"
  by (simp add: dispatch_def thrower_def)

lemma dispatch_invalid:
  "(\<forall>r. result \<noteq> JSRequest r) \<Longrightarrow> (\<forall>r. result \<noteq> JSResponse r) \<Longrightarrow>
   dispatch transport this req result log =
     (Rejected (JSError (''An invalid result was returned by the interceptor chain. Expected a Request or Response instance, but got ['' @ toString result @ '']'')), log)"
  by (cases result) (simp_all add: dispatch_def)

lemma failing_build:
  "buildRequest (trackRequestStart failing_client) (InputUrl ''users'') None = Inl (JSError ''no token'')"
  by (simp add: buildRequest_def parseHeaderValues_def failing_client_def failing_defaults_def
      trackRequestStart_def initial_client_def empty_init_def)

lemma failing_client_interceptors:
  "HttpClient.interceptors (trackRequestStart failing_client) = [recovering]"
  by (simp add: failing_client_def trackRequestStart_def initial_client_def)

lemma recovering_handlers:
  "property recovering ''request'' = None"
  "property recovering ''requestError'' = Some (\<lambda>e args. Fulfilled (JSResponse recovered))"
  by (simp_all add: property_def recovering_def)

lemma failing_pipeline:
  "pipeline transport (InputUrl ''users'') None (trackRequestStart failing_client) [TrackRequestStart]
     = (Rejected (JSError ''no token''),
        [TrackRequestStart, BuildRequest, Invoke ''requestError'' recovering])"
  by (simp add: pipeline_def build_promise_def failing_build processRequest_def
      failing_client_interceptors applyInterceptors_Cons applyInterceptors_Nil
      chain_step_rejected recovering_handlers dispatch_response_unbuilt)

lemma failing_client_idle:
  "failing_client\<lparr> isRequesting := (activeRequestCount failing_client \<noteq> 0) \<rparr> = failing_client"
  by (simp add: failing_client_def initial_client_def)

text \<open>
  C3. After the request phase, a response is to go to the response phase without the
  transport being called, a request is to be given to the transport, and anything else
  is to reject with an error that names the value. The lemmas on \<open>dispatch\<close> above
  show the last two, and the first when the request was built. Here the construction
  of the request fails, the \<^verbatim>\<open>requestError\<close> handler recovers with a response, and
  yet the promise of \<^verbatim>\<open>fetch\<close> rejects with the error of the construction: the
  response never reaches the response phase, since \<^verbatim>\<open>request.then\<close> is called on the
  rejected promise of the construction.
\<close>

theorem recovery_with_response_is_dropped:
  "processRequest (Rejected (JSError ''no token'')) [recovering] [TrackRequestStart, BuildRequest]
     = (Fulfilled (JSResponse recovered),
        [TrackRequestStart, BuildRequest, Invoke ''requestError'' recovering])
   \<and> fetch answering (InputUrl ''users'') None failing_client =
     (Rejected (JSError ''no token''),
      [TrackRequestStart, BuildRequest, Invoke ''requestError'' recovering, TrackRequestEnd],
      failing_client)"
  by (simp add: fetch_unfold failing_pipeline trackRequestEndWith_settled track_end_start
      failing_client_idle processRequest_def applyInterceptors_Cons applyInterceptors_Nil
      chain_step_rejected recovering_handlers)

section \<open>Properties of the default headers\<close>

lemma default_step:
  "(if \<not> Headers_has h name then Headers_set h name v else h)
     = (if \<not> Headers_has h name then h @ [(lower name, v)] else h)"
  by (simp add: Headers_set_def Headers_append_def)

lemma setDefaultHeaders_has_mono:
  "Headers_has h n \<Longrightarrow> Headers_has (setDefaultHeaders h ds) n"
proof (induction ds arbitrary: h)
  case Nil
  then show ?case by simp
next
  case (Cons d ds)
  obtain name v where d: "d = (name, v)" by (cases d)
  from Cons.prems have "Headers_has (if \<not> Headers_has h name then h @ [(lower name, v)] else h) n"
    by (simp add: Headers_has_def)
  with Cons.IH d show ?case by (simp add: default_step)
qed

lemma setDefaultHeaders_adds:
  "(name, v) \<in> set ds \<Longrightarrow> Headers_has (setDefaultHeaders h ds) name"
proof (induction ds arbitrary: h)
  case Nil
  then show ?case by simp
next
  case (Cons d ds)
  obtain name' v' where d: "d = (name', v')" by (cases d)
  let ?h = "if \<not> Headers_has h name' then h @ [(lower name', v')] else h"
  show ?case
  proof (cases "(name, v) = d")
    case True
    with d have "Headers_has ?h name"
      by (simp add: Headers_has_def)
    then have "Headers_has (setDefaultHeaders ?h ds) name"
      by (rule setDefaultHeaders_has_mono)
    with d show ?thesis
      by (simp add: default_step)
  next
    case False
    with Cons.prems have "(name, v) \<in> set ds" by simp
    with Cons.IH d show ?thesis by simp
  qed
qed

lemma setDefaultHeaders_keeps:
  "Headers_has h n \<Longrightarrow> Headers_get (setDefaultHeaders h ds) n = Headers_get h n"
proof (induction ds arbitrary: h)
  case Nil
  then show ?case by simp
next
  case (Cons d ds)
  obtain name v where d: "d = (name, v)" by (cases d)
  let ?h = "if \<not> Headers_has h name then h @ [(lower name, v)] else h"
  from Cons.prems have "Headers_has ?h n" "Headers_get ?h n = Headers_get h n"
    by (auto simp: Headers_has_def Headers_get_def)
  with Cons.IH [of ?h] d show ?case by (simp add: default_step)
qed

lemma set_first_other:
  "k \<noteq> k' \<Longrightarrow> filter (\<lambda>e. fst e = k) (set_first h k' v) = filter (\<lambda>e. fst e = k) h"
  by (induction h) (auto intro: filter_cong)

lemma set_first_names:
  "k \<noteq> k' \<Longrightarrow> k \<in> set (map fst (set_first h k' v)) \<longleftrightarrow> k \<in> set (map fst h)"
  by (induction h) auto

lemma Headers_set_other:
  "lower n \<noteq> lower m \<Longrightarrow>
     Headers_has (Headers_set h m v) n = Headers_has h n
     \<and> Headers_get (Headers_set h m v) n = Headers_get h n"
  by (simp add: Headers_set_def Headers_get_def Headers_has_def Headers_append_def
      set_first_other set_first_names del: set_map)

lemma Headers_append_other:
  "lower n \<noteq> lower m \<Longrightarrow>
     Headers_has (Headers_append h m v) n = Headers_has h n
     \<and> Headers_get (Headers_append h m v) n = Headers_get h n"
  by (simp add: Headers_get_def Headers_has_def Headers_append_def)

lemma Object_assign_sel:
  "RequestInit.headers (Object_assign a b) = over (RequestInit.headers a) (RequestInit.headers b)"
  "RequestInit.body (Object_assign a b) = over (RequestInit.body a) (RequestInit.body b)"
  by (simp_all add: Object_assign_def)

lemma empty_init_sel:
  "RequestInit.headers empty_init = None"
  "RequestInit.body empty_init = None"
  "RequestInit.headers (empty_init\<lparr> RequestInit.body := b \<rparr>) = None"
  "RequestInit.body (empty_init\<lparr> RequestInit.body := b \<rparr>) = b"
  "RequestInit.headers (empty_init\<lparr> RequestInit.headers := h \<rparr>) = h"
  by (simp_all add: empty_init_def)

lemma new_Request_headers:
  "Request.headers (new_Request u i) = new_Headers (RequestInit.headers i)
   \<or> (\<exists>t. \<not> Headers_has (new_Headers (RequestInit.headers i)) ''Content-Type''
         \<and> Request.headers (new_Request u i)
             = Headers_append (new_Headers (RequestInit.headers i)) ''Content-Type'' t)"
  by (auto simp: new_Request_def Let_def split: option.split)

lemma new_Headers_empty: "new_Headers (Some (Plain [])) = new_Headers None"
  by (simp add: new_Headers_def Headers_of_object_def)

lemma merged_headers:
  "new_Headers (RequestInit.headers
      (Object_assign_opt
         (Object_assign
            (Object_assign (Object_assign empty_init d)
               (empty_init\<lparr> RequestInit.headers := Some (Plain []) \<rparr>))
            i)
         (if c then Some (empty_init\<lparr> RequestInit.body := b \<rparr>) else None)))
   = new_Headers (RequestInit.headers i)"
  by (cases "RequestInit.headers i")
    (simp_all add: Object_assign_opt_def Object_assign_sel empty_init_sel over_def new_Headers_empty)

lemma initial_request_url:
  "initial_request this d (InputUrl u) init = (r0, b, ct) \<Longrightarrow>
     ct = Headers_get (call_headers init) ''Content-Type''
     \<and> b = (case init of None \<Rightarrow> None | Some i \<Rightarrow> RequestInit.body i)
     \<and> (Request.headers r0 = call_headers init
        \<or> (\<exists>t. \<not> Headers_has (call_headers init) ''Content-Type''
              \<and> Request.headers r0 = Headers_append (call_headers init) ''Content-Type'' t))"
proof -
  assume a: "initial_request this d (InputUrl u) init = (r0, b, ct)"
  define i where "i = (case init of None \<Rightarrow> empty_init | Some i' \<Rightarrow> i')"
  have h: "new_Headers (RequestInit.headers i) = call_headers init"
    by (cases init) (simp_all add: i_def call_headers_def empty_init_sel)
  have bi: "RequestInit.body i = (case init of None \<Rightarrow> None | Some i \<Rightarrow> RequestInit.body i)"
    by (cases init) (simp_all add: i_def empty_init_sel)
  define ri where "ri = Object_assign_opt
         (Object_assign
            (Object_assign (Object_assign empty_init d)
               (empty_init\<lparr> RequestInit.headers := Some (Plain []) \<rparr>))
            i)
         (if truthy_body (RequestInit.body i)
          then Some (empty_init\<lparr> RequestInit.body := RequestInit.body i \<rparr>) else None)"
  have rh: "new_Headers (RequestInit.headers ri) = call_headers init"
    unfolding ri_def merged_headers h ..
  have "initial_request this d (InputUrl u) init
      = (new_Request (getRequestUrl (HttpClient.baseUrl this) u) ri, RequestInit.body i,
         Headers_get (new_Headers (RequestInit.headers ri)) ''Content-Type'')"
    unfolding initial_request_def Let_def i_def ri_def by simp
  with a have "r0 = new_Request (getRequestUrl (HttpClient.baseUrl this) u) ri"
    "b = RequestInit.body i" "ct = Headers_get (new_Headers (RequestInit.headers ri)) ''Content-Type''"
    by simp_all
  with rh bi new_Request_headers [of "getRequestUrl (HttpClient.baseUrl this) u" ri]
  show ?thesis by auto
qed


lemma lower_content_type:
  "lower ''Content-Type'' = ''content-type''" "lower ''content-type'' = ''content-type''"
  by (simp_all add: lower_def toLower_def)

lemma Headers_lower_cong:
  "lower n = lower m \<Longrightarrow> Headers_has h n = Headers_has h m \<and> Headers_get h n = Headers_get h m"
  by (simp add: Headers_has_def Headers_get_def)

lemma buildRequest_steps:
  assumes "buildRequest this (InputUrl u) init = Inr r"
  obtains pd r0 b ct where
    "parseHeaderValues (RequestInit.headers
        (case HttpClient.defaults this of None \<Rightarrow> empty_init | Some d' \<Rightarrow> d')) = Inr pd"
    "initial_request this (case HttpClient.defaults this of None \<Rightarrow> empty_init | Some d' \<Rightarrow> d')
        (InputUrl u) init = (r0, b, ct)"
    "Request.headers r =
       (let h1 = (if \<not> truthy ct \<and> Headers_has (Headers_of_object pd) ''content-type''
                  then Headers_set (Request.headers r0) ''Content-Type''
                         (or_null (Headers_get (Headers_of_object pd) ''content-type''))
                  else Request.headers r0);
            h2 = setDefaultHeaders h1 pd
        in case b of
             Some (BodyBlob t) \<Rightarrow> if t \<noteq> [] then Headers_set h2 ''Content-Type'' t else h2
           | _ \<Rightarrow> h2)"
proof -
  define d where "d = (case HttpClient.defaults this of None \<Rightarrow> empty_init | Some d' \<Rightarrow> d')"
  obtain r0 b ct where i: "initial_request this d (InputUrl u) init = (r0, b, ct)"
    by (cases "initial_request this d (InputUrl u) init")
  from assms obtain pd where p: "parseHeaderValues (RequestInit.headers d) = Inr pd"
    by (cases "parseHeaderValues (RequestInit.headers d)")
      (simp_all add: buildRequest_def Let_def d_def)
  from assms i p have "Request.headers r =
       (let h1 = (if \<not> truthy ct \<and> Headers_has (Headers_of_object pd) ''content-type''
                  then Headers_set (Request.headers r0) ''Content-Type''
                         (or_null (Headers_get (Headers_of_object pd) ''content-type''))
                  else Request.headers r0);
            h2 = setDefaultHeaders h1 pd
        in case b of
             Some (BodyBlob t) \<Rightarrow> if t \<noteq> [] then Headers_set h2 ''Content-Type'' t else h2
           | _ \<Rightarrow> h2)"
    unfolding buildRequest_def d_def [symmetric] Let_def
    by (auto split: option.splits Body.splits)
  with i p that show thesis unfolding d_def by blast
qed

lemma call_time_headers_kept:
  assumes built: "buildRequest this (InputUrl u) init = Inr r"
    and has: "Headers_has (call_headers init) n"
    and safe: "lower n \<noteq> ''content-type''
       \<or> (truthy (Headers_get (call_headers init) n)
           \<and> (\<forall>t. (case init of None \<Rightarrow> None | Some i \<Rightarrow> RequestInit.body i) = Some (BodyBlob t)
                  \<longrightarrow> t = []))"
  shows "Headers_get (Request.headers r) n = Headers_get (call_headers init) n"
proof -
  from built obtain pd r0 b ct where
    "parseHeaderValues (RequestInit.headers
        (case HttpClient.defaults this of None \<Rightarrow> empty_init | Some d' \<Rightarrow> d')) = Inr pd"
    and i: "initial_request this (case HttpClient.defaults this of None \<Rightarrow> empty_init | Some d' \<Rightarrow> d')
        (InputUrl u) init = (r0, b, ct)"
    and r: "Request.headers r =
       (let h1 = (if \<not> truthy ct \<and> Headers_has (Headers_of_object pd) ''content-type''
                  then Headers_set (Request.headers r0) ''Content-Type''
                         (or_null (Headers_get (Headers_of_object pd) ''content-type''))
                  else Request.headers r0);
            h2 = setDefaultHeaders h1 pd
        in case b of
             Some (BodyBlob t) \<Rightarrow> if t \<noteq> [] then Headers_set h2 ''Content-Type'' t else h2
           | _ \<Rightarrow> h2)"
    by (rule buildRequest_steps)
  from initial_request_url [OF i] have
    ct: "ct = Headers_get (call_headers init) ''Content-Type''"
    and b: "b = (case init of None \<Rightarrow> None | Some i \<Rightarrow> RequestInit.body i)"
    and h0: "Request.headers r0 = call_headers init
        \<or> (\<exists>t. \<not> Headers_has (call_headers init) ''Content-Type''
              \<and> Request.headers r0 = Headers_append (call_headers init) ''Content-Type'' t)"
    by blast+
  define h1 where "h1 = (if \<not> truthy ct \<and> Headers_has (Headers_of_object pd) ''content-type''
                  then Headers_set (Request.headers r0) ''Content-Type''
                         (or_null (Headers_get (Headers_of_object pd) ''content-type''))
                  else Request.headers r0)"
  define h2 where "h2 = setDefaultHeaders h1 pd"
  have r': "Request.headers r =
      (case b of Some (BodyBlob t) \<Rightarrow> if t \<noteq> [] then Headers_set h2 ''Content-Type'' t else h2
       | _ \<Rightarrow> h2)"
    using r by (simp only: h1_def h2_def Let_def)
  show ?thesis
  proof (cases "lower n = ''content-type''")
    case False
    then have ne: "lower n \<noteq> lower ''Content-Type''" by (simp add: lower_content_type)
    from h0 has ne have 0: "Headers_has (Request.headers r0) n"
      "Headers_get (Request.headers r0) n = Headers_get (call_headers init) n"
      by (auto simp: Headers_append_other)
    with ne have 1: "Headers_has h1 n" "Headers_get h1 n = Headers_get (call_headers init) n"
      by (simp_all add: h1_def Headers_set_other)
    then have 2: "Headers_get h2 n = Headers_get (call_headers init) n"
      by (simp add: h2_def setDefaultHeaders_keeps)
    with ne r' show ?thesis
      by (auto simp: Headers_set_other split: option.split Body.split)
  next
    case True
    then have eq: "lower n = lower ''Content-Type''" by (simp add: lower_content_type)
    from True safe have t: "truthy (Headers_get (call_headers init) n)"
      and nb: "\<forall>t. b = Some (BodyBlob t) \<longrightarrow> t = []"
      by (simp_all add: b)
    from has eq have hc: "Headers_has (call_headers init) ''Content-Type''"
      using Headers_lower_cong [OF eq, of "call_headers init"] by simp
    with h0 have 0: "Request.headers r0 = call_headers init" by blast
    from t eq have "truthy ct"
      using Headers_lower_cong [OF eq, of "call_headers init"] by (simp add: ct)
    with 0 have 1: "h1 = call_headers init" by (simp add: h1_def)
    with has have 2: "Headers_get h2 n = Headers_get (call_headers init) n"
      by (simp add: h2_def setDefaultHeaders_keeps)
    from nb r' have "Request.headers r = h2"
      by (auto split: option.split Body.split)
    with 2 show ?thesis by simp
  qed
qed


lemma set_first_same_names:
  "k \<in> set (map fst h) \<Longrightarrow> set (map fst (set_first h k v)) = set (map fst h)"
  by (induction h) auto

lemma Headers_set_has_mono: "Headers_has h n \<Longrightarrow> Headers_has (Headers_set h m v) n"
  using set_first_same_names [of "lower m" h v]
  by (auto simp: Headers_set_def Headers_has_def Headers_append_def simp del: set_map)

lemma default_headers_present:
  assumes built: "buildRequest this (InputUrl u) init = Inr r"
    and parsed: "parseHeaderValues (RequestInit.headers
        (case HttpClient.defaults this of None \<Rightarrow> empty_init | Some d' \<Rightarrow> d')) = Inr pd"
    and d: "(name, v) \<in> set pd"
  shows "Headers_has (Request.headers r) name"
proof -
  from built obtain pd' r0 b ct where
    p: "parseHeaderValues (RequestInit.headers
        (case HttpClient.defaults this of None \<Rightarrow> empty_init | Some d' \<Rightarrow> d')) = Inr pd'"
    and "initial_request this (case HttpClient.defaults this of None \<Rightarrow> empty_init | Some d' \<Rightarrow> d')
        (InputUrl u) init = (r0, b, ct)"
    and r: "Request.headers r =
       (let h1 = (if \<not> truthy ct \<and> Headers_has (Headers_of_object pd') ''content-type''
                  then Headers_set (Request.headers r0) ''Content-Type''
                         (or_null (Headers_get (Headers_of_object pd') ''content-type''))
                  else Request.headers r0);
            h2 = setDefaultHeaders h1 pd'
        in case b of
             Some (BodyBlob t) \<Rightarrow> if t \<noteq> [] then Headers_set h2 ''Content-Type'' t else h2
           | _ \<Rightarrow> h2)"
    by (rule buildRequest_steps)
  from p parsed have pd: "pd' = pd" by simp
  define h1 where "h1 = (if \<not> truthy ct \<and> Headers_has (Headers_of_object pd) ''content-type''
                  then Headers_set (Request.headers r0) ''Content-Type''
                         (or_null (Headers_get (Headers_of_object pd) ''content-type''))
                  else Request.headers r0)"
  have r': "Request.headers r =
      (case b of Some (BodyBlob t) \<Rightarrow>
         if t \<noteq> [] then Headers_set (setDefaultHeaders h1 pd) ''Content-Type'' t
         else setDefaultHeaders h1 pd
       | _ \<Rightarrow> setDefaultHeaders h1 pd)"
    using r by (simp only: pd h1_def Let_def)
  from d have "Headers_has (setDefaultHeaders h1 pd) name"
    by (rule setDefaultHeaders_adds)
  with r' show ?thesis
    by (auto simp: Headers_set_has_mono split: option.split Body.split)
qed

text \<open>
  C2. Every default header whose name the built request lacks is to be added, and no
  header set at call time is to be overwritten by a default. \<^verbatim>\<open>setDefaultHeaders\<close>
  does both, and the request that \<^verbatim>\<open>buildRequest\<close> returns has every default header
  and keeps every header of the call other than an empty content type, as the lemmas
  above show. The step of \<^verbatim>\<open>buildRequest\<close> before \<^verbatim>\<open>setDefaultHeaders\<close> tests
  \<^verbatim>\<open>!requestContentType\<close>, which also holds for a content type that the call set to
  the empty string: here the options set \<^verbatim>\<open>Content-Type\<close> to the empty string and the
  built request carries the default \<^verbatim>\<open>application/json\<close>.
\<close>

theorem explicit_empty_content_type_is_overwritten:
  "Headers_get (new_Headers (RequestInit.headers empty_content_type)) ''Content-Type'' = Some []
   \<and> buildRequest json_client (InputUrl ''users'') (Some empty_content_type) = Inr users_request
   \<and> Headers_get (Request.headers users_request) ''Content-Type'' = Some ''application/json''"
  by (simp add: build_eval json_client_def json_defaults_def empty_content_type_def
      initial_client_def empty_init_def users_request_def)

section \<open>The scenarios of the specification\<close>

text \<open>
  With the standard configuration, a response of the transport with a failure status
  makes the promise of \<^verbatim>\<open>fetch\<close> reject with that response.
\<close>

lemma configure_standard:
  "configure (ArgFunction standard_callback) initial_client = (Inr (), standard_client)"
  by (simp add: configure_def normalizeConfig_def install_cases seed_def standard_callback_def
      useStandardConfiguration_def rejectErrorResponses_def withInterceptor_def untouched_def
      Object_assign_def Object_assign_opt_def over_def empty_init_def headers_instance_def
      initial_client_def standard_client_def Let_def)

lemma standard_build:
  "buildRequest (trackRequestStart standard_client) (InputUrl ''users'') None = Inr standard_request"
  by (simp add: build_eval standard_client_def trackRequestStart_def empty_init_def
      standard_request_def)

lemma standard_client_interceptors:
  "HttpClient.interceptors (trackRequestStart standard_client) = [response_rejectOnError]"
  by (simp add: standard_client_def trackRequestStart_def)

lemma standard_client_idle:
  "standard_client\<lparr> isRequesting := (activeRequestCount standard_client \<noteq> 0) \<rparr> = standard_client"
  by (simp add: standard_client_def)

lemma rejecting_handlers:
  "property response_rejectOnError ''request'' = None"
  "property response_rejectOnError ''requestError'' = None"
  "property response_rejectOnError ''response'' = Some rejectOnError"
  by (simp_all add: property_def response_rejectOnError_def)

lemma standard_configuration_scenario:
  "fetch refusing (InputUrl ''users'') None standard_client =
     (Rejected (JSResponse not_found),
      [TrackRequestStart, BuildRequest, Transport standard_request,
       Invoke ''response'' response_rejectOnError, TrackRequestEnd],
      standard_client)"
  by (simp add: fetch_unfold pipeline_def build_promise_def standard_build processRequest_def
      processResponse_def standard_client_interceptors applyInterceptors_Cons applyInterceptors_Nil
      chain_step_fulfilled rejecting_handlers dispatch_request refusing_def not_found_def
      trackRequestEndWith_settled track_end_start standard_client_idle)

text \<open>
  With the base URL \<^verbatim>\<open>/api/\<close> and the default header \<^verbatim>\<open>X-Test: 1\<close>, the target
  \<^verbatim>\<open>users\<close> reaches the transport as \<^verbatim>\<open>/api/users\<close> with that header.
\<close>

lemma configure_api:
  "configure (ArgFunction api_callback) initial_client = (Inr (), api_client)"
  by (simp add: configure_def normalizeConfig_def install_cases seed_def api_callback_def
      withDefaults_def withBaseUrl_def untouched_def headers_instance_def api_defaults_def
      empty_init_def initial_client_def api_client_def Let_def)

lemma api_build:
  "buildRequest (trackRequestStart api_client) (InputUrl ''users'') None = Inr api_request"
  by (simp add: build_eval api_client_def api_defaults_def trackRequestStart_def empty_init_def
      api_request_def isSchemeChar_def colon_slashes_def)

lemma api_client_interceptors: "HttpClient.interceptors (trackRequestStart api_client) = []"
  by (simp add: api_client_def trackRequestStart_def)

lemma api_client_idle:
  "api_client\<lparr> isRequesting := (activeRequestCount api_client \<noteq> 0) \<rparr> = api_client"
  by (simp add: api_client_def)

lemma base_url_scenario:
  "fetch answering (InputUrl ''users'') None api_client =
     (Fulfilled (JSResponse found),
      [TrackRequestStart, BuildRequest, Transport api_request, TrackRequestEnd],
      api_client)"
  by (simp add: fetch_unfold pipeline_def build_promise_def api_build processRequest_def
      processResponse_def api_client_interceptors applyInterceptors_Nil dispatch_request
      answering_def trackRequestEndWith_settled track_end_start api_client_idle)

end
